theory Spec2Isabelle
  imports
    Main
    "HOL-Library.Word"
    "HOL-Library.Signed_Division"
    "HOL-Library.Char_ord"
    "HOL-Library.List_Lexorder"
    "HOL-Library.Monad_Syntax"
    "HOL-Library.AList"
begin

unbundle bit_operations_syntax

chapter \<open>MoonShot: lexer, parser, type checker and evaluator\<close>

text \<open>
  A shallow embedding of the MoonShot interpreter.  Every Go function is a HOL function
  of the same name.  Conventions:
  \<^item> Go \<open>int64\<close> is \<open>64 word\<close>; positions, line numbers and lengths are \<open>nat\<close>.
  \<^item> A Go string is a \<open>string\<close> (a list of bytes).
  \<^item> A function that can panic or fail to return has an \<open>option\<close> result, \<open>None\<close>
    standing for "no value is returned".  Recursion that Go does not bound is bounded
    by a fuel argument, written first; running out of fuel is \<open>None\<close> as well.
  \<^item> The receiver of a method (the lexer, the parser, the checker, the evaluator) is
    passed in and returned.
\<close>

section \<open>Tokens (token.go)\<close>

datatype TokenType =
    ILLEGAL | EOF | NEWLINE
  | IDENT | INTEGER | FLOAT | STRING
  | DEF | FUN | STRUCT | EXTEND | IF | ELSE | WHILE | FOR | IN | RETURN | MATCH
  | SOME_T | NONE | OK | ERROR | IMPORT | AND_T | OR_T | NOT_T | IS | BREAK | CONTINUE
  | MUTABLE | TRUE | FALSE
  | ASSIGN | ASSIGN_MUT | PLUS | MINUS | MULTIPLY | DIVIDE | MODULO | GT | LT | GTE | LTE
  | ARROW
  | LPAREN | RPAREN | LBRACE | RBRACE | LBRACKET | RBRACKET | COMMA | COLON | DOT

text \<open>\<open>AND_T\<close>, \<open>OR_T\<close>, \<open>NOT_T\<close> and \<open>SOME_T\<close> are the token types \<open>AND\<close>, \<open>OR\<close>,
  \<open>NOT\<close> and \<open>SOME\<close>, renamed because HOL owns these names.\<close>

fun tokenNames :: "TokenType \<Rightarrow> string" where
  "tokenNames ILLEGAL = ''ILLEGAL''" | "tokenNames EOF = ''EOF''"
| "tokenNames NEWLINE = ''NEWLINE''" | "tokenNames IDENT = ''IDENT''"
| "tokenNames INTEGER = ''INTEGER''" | "tokenNames FLOAT = ''FLOAT''"
| "tokenNames STRING = ''STRING''" | "tokenNames DEF = ''DEF''"
| "tokenNames FUN = ''FUN''" | "tokenNames STRUCT = ''STRUCT''"
| "tokenNames EXTEND = ''EXTEND''" | "tokenNames IF = ''IF''"
| "tokenNames ELSE = ''ELSE''" | "tokenNames WHILE = ''WHILE''"
| "tokenNames FOR = ''FOR''" | "tokenNames IN = ''IN''"
| "tokenNames RETURN = ''RETURN''" | "tokenNames MATCH = ''MATCH''"
| "tokenNames SOME_T = ''SOME''" | "tokenNames NONE = ''NONE''"
| "tokenNames OK = ''OK''" | "tokenNames ERROR = ''ERROR''"
| "tokenNames IMPORT = ''IMPORT''" | "tokenNames AND_T = ''AND''"
| "tokenNames OR_T = ''OR''" | "tokenNames NOT_T = ''NOT''"
| "tokenNames IS = ''IS''" | "tokenNames BREAK = ''BREAK''"
| "tokenNames CONTINUE = ''CONTINUE''" | "tokenNames MUTABLE = ''MUTABLE''"
| "tokenNames TRUE = ''TRUE''" | "tokenNames FALSE = ''FALSE''"
| "tokenNames ASSIGN = ''=''" | "tokenNames ASSIGN_MUT = ''==''"
| "tokenNames PLUS = ''+''" | "tokenNames MINUS = ''-''"
| "tokenNames MULTIPLY = ''*''" | "tokenNames DIVIDE = ''/''"
| "tokenNames MODULO = ''%''" | "tokenNames GT = ''>''"
| "tokenNames LT = ''<''" | "tokenNames GTE = ''>=''"
| "tokenNames LTE = ''<=''" | "tokenNames ARROW = ''->''"
| "tokenNames LPAREN = ''(''" | "tokenNames RPAREN = '')''"
| "tokenNames LBRACE = ''{''" | "tokenNames RBRACE = ''}''"
| "tokenNames LBRACKET = ''[''" | "tokenNames RBRACKET = '']''"
| "tokenNames COMMA = '',''" | "tokenNames COLON = '':''"
| "tokenNames DOT = ''.''"

record Token =
  Type :: TokenType
  Literal :: string
  Line :: nat
  Column :: nat

text \<open>The keyword table \<open>keywords\<close> of token.go.\<close>

definition keywordTable :: "string \<rightharpoonup> TokenType" where
  "keywordTable = map_of
     [(''def'', DEF), (''fun'', FUN), (''struct'', STRUCT), (''extend'', EXTEND),
      (''if'', IF), (''else'', ELSE), (''while'', WHILE), (''for'', FOR), (''in'', IN),
      (''return'', RETURN), (''match'', MATCH), (''Some'', SOME_T), (''None'', NONE),
      (''Ok'', OK), (''Error'', ERROR), (''import'', IMPORT), (''and'', AND_T),
      (''or'', OR_T), (''not'', NOT_T), (''is'', IS), (''break'', BREAK),
      (''continue'', CONTINUE), (''Mutable'', MUTABLE), (''true'', TRUE),
      (''false'', FALSE)]"

definition LookupIdent :: "string \<Rightarrow> TokenType" where
  "LookupIdent ident = (case keywordTable ident of Some tok \<Rightarrow> tok | None \<Rightarrow> IDENT)"

section \<open>Lexer\<close>

record Lexer =
  input :: string
  pos :: nat
  readPos :: nat
  ch :: char
  line :: nat
  column :: nat

definition readChar :: "Lexer \<Rightarrow> Lexer" where
  "readChar l =
     l\<lparr>ch := (if readPos l \<ge> length (input l) then CHR 0x00 else input l ! readPos l),
       pos := readPos l,
       readPos := readPos l + 1,
       column := column l + 1\<rparr>"

definition NewLexer :: "string \<Rightarrow> Lexer" where
  "NewLexer inp =
     readChar \<lparr>input = inp, pos = 0, readPos = 0, ch = CHR 0x00, line = 1, column = 0\<rparr>"

definition peekChar :: "Lexer \<Rightarrow> char" where
  "peekChar l = (if readPos l \<ge> length (input l) then CHR 0x00 else input l ! readPos l)"

definition isLetter :: "char \<Rightarrow> bool" where
  "isLetter c \<longleftrightarrow>
     (CHR ''a'' \<le> c \<and> c \<le> CHR ''z'') \<or> (CHR ''A'' \<le> c \<and> c \<le> CHR ''Z'') \<or> c = CHR ''_''"

definition isDigit :: "char \<Rightarrow> bool" where
  "isDigit c \<longleftrightarrow> CHR ''0'' \<le> c \<and> c \<le> CHR ''9''"

text \<open>The loops of the lexer stop at the byte 0 that \<open>readChar\<close> delivers past the end
  of the input; \<open>lexMeasure\<close> is the variant that makes them terminate.\<close>

definition lexMeasure :: "Lexer \<Rightarrow> nat" where
  "lexMeasure l = (length (input l) + 1 - readPos l) + (if ch l = CHR 0x00 then 0 else 1)"

lemma lexMeasure_readChar: "ch l \<noteq> CHR 0x00 \<Longrightarrow> lexMeasure (readChar l) < lexMeasure l"
  by (auto simp: lexMeasure_def readChar_def)

lemma isLetter_not_nul: "isLetter c \<Longrightarrow> c \<noteq> CHR 0x00"
  by (auto simp: isLetter_def)

lemma isDigit_not_nul: "isDigit c \<Longrightarrow> c \<noteq> CHR 0x00"
  by (auto simp: isDigit_def)

function skipWhitespaceExceptNewline :: "Lexer \<Rightarrow> Lexer" where
  "skipWhitespaceExceptNewline l =
     (if ch l = CHR '' '' \<or> ch l = CHR 0x09 \<or> ch l = CHR 0x0D
      then skipWhitespaceExceptNewline (readChar l) else l)"
  by pat_completeness auto
termination
  by (relation "measure lexMeasure") (auto intro!: lexMeasure_readChar)

function skipComment :: "Lexer \<Rightarrow> Lexer" where
  "skipComment l =
     (if ch l \<noteq> CHR 0x0A \<and> ch l \<noteq> CHR 0x00 then skipComment (readChar l) else l)"
  by pat_completeness auto
termination
  by (relation "measure lexMeasure") (auto intro!: lexMeasure_readChar)

function readIdentifierLoop :: "Lexer \<Rightarrow> Lexer" where
  "readIdentifierLoop l =
     (if isLetter (ch l) \<or> isDigit (ch l) then readIdentifierLoop (readChar l) else l)"
  by pat_completeness auto
termination
  by (relation "measure lexMeasure")
     (auto intro!: lexMeasure_readChar dest: isLetter_not_nul isDigit_not_nul)

function readDigits :: "Lexer \<Rightarrow> Lexer" where
  "readDigits l = (if isDigit (ch l) then readDigits (readChar l) else l)"
  by pat_completeness auto
termination
  by (relation "measure lexMeasure") (auto intro!: lexMeasure_readChar dest: isDigit_not_nul)

declare skipWhitespaceExceptNewline.simps [simp del] skipComment.simps [simp del]
  readIdentifierLoop.simps [simp del] readDigits.simps [simp del]

text \<open>\<open>slice s i j\<close> is Go's \<open>s[i:j]\<close> for \<open>i \<le> j \<le> len(s)\<close>, the only way the lexer
  uses it.\<close>

definition slice :: "string \<Rightarrow> nat \<Rightarrow> nat \<Rightarrow> string" where
  "slice s i j = take (j - i) (drop i s)"

definition readIdentifier :: "Lexer \<Rightarrow> string \<times> Lexer" where
  "readIdentifier l =
     (let p = pos l; l' = readIdentifierLoop l in (slice (input l') p (pos l'), l'))"

definition readNumber :: "Lexer \<Rightarrow> (string \<times> TokenType) \<times> Lexer" where
  "readNumber l =
     (let p = pos l;
          l1 = readDigits l
      in if ch l1 = CHR ''.'' \<and> isDigit (peekChar l1)
         then (let l2 = readDigits (readChar l1) in ((slice (input l2) p (pos l2), FLOAT), l2))
         else ((slice (input l1) p (pos l1), INTEGER), l1))"

function readStringLoop :: "Lexer \<Rightarrow> Lexer" where
  "readStringLoop l =
     (if ch l \<noteq> CHR 0x22 \<and> ch l \<noteq> CHR 0x00
      then readStringLoop
             (readChar (if ch l = CHR 0x5C \<and> peekChar l \<noteq> CHR 0x00 then readChar l else l))
      else l)"
  by pat_completeness auto
termination
proof (relation "measure lexMeasure", simp, goal_cases)
  case (1 l)
  then have nz: "ch l \<noteq> CHR 0x00" by simp
  show ?case
  proof (cases "ch l = CHR 0x5C \<and> peekChar l \<noteq> CHR 0x00")
    case True
    then have "ch (readChar l) \<noteq> CHR 0x00"
      by (auto simp: readChar_def peekChar_def split: if_splits)
    then have "lexMeasure (readChar (readChar l)) < lexMeasure (readChar l)"
      by (rule lexMeasure_readChar)
    with lexMeasure_readChar [OF nz] True show ?thesis by simp
  next
    case False
    with lexMeasure_readChar [OF nz] show ?thesis by auto
  qed
qed

declare readStringLoop.simps [simp del]

definition readString :: "Lexer \<Rightarrow> string \<times> Lexer" where
  "readString l =
     (let l1 = readChar l; p = pos l1; l2 = readStringLoop l1
      in (slice (input l2) p (pos l2), l2))"

definition newToken :: "Lexer \<Rightarrow> TokenType \<Rightarrow> string \<Rightarrow> Token" where
  "newToken l tokenType literal =
     \<lparr>Type = tokenType, Literal = literal, Line = line l, Column = column l\<rparr>"

lemma skipComment_ch: "ch (skipComment l) = CHR 0x0A \<or> ch (skipComment l) = CHR 0x00"
  by (induction l rule: skipComment.induct) (subst skipComment.simps, subst (2) skipComment.simps, simp)

lemma skipWhitespace_no_space:
  "ch l \<noteq> CHR '' '' \<Longrightarrow> ch l \<noteq> CHR 0x09 \<Longrightarrow> ch l \<noteq> CHR 0x0D \<Longrightarrow> skipWhitespaceExceptNewline l = l"
  by (subst skipWhitespaceExceptNewline.simps) simp

lemma skipWhitespace_skipComment:
  "ch (skipWhitespaceExceptNewline (skipComment l)) \<noteq> CHR ''/''"
proof -
  have c: "ch (skipComment l) = CHR 0x0A \<or> ch (skipComment l) = CHR 0x00"
    by (rule skipComment_ch)
  then have "skipWhitespaceExceptNewline (skipComment l) = skipComment l"
    by (intro skipWhitespace_no_space) auto
  with c show ?thesis by auto
qed

text \<open>The \<open>switch\<close> of \<open>NextToken\<close> on the current byte, after the white space has been
  skipped, for every case but the comment.\<close>

definition nextTokenSwitch :: "Lexer \<Rightarrow> Token \<times> Lexer" where
  "nextTokenSwitch l =
     (let ln = line l; col = column l; c = ch l;
          two = (\<lambda>t lit. (\<lparr>Type = t, Literal = lit, Line = ln, Column = col\<rparr>, readChar (readChar l)));
          one = (\<lambda>t. (newToken l t [c], readChar l))
      in if c = CHR 0x0A then (newToken l NEWLINE [c], readChar (l\<lparr>line := line l + 1, column := 0\<rparr>))
         else if c = CHR ''='' then (if peekChar l = CHR ''='' then two ASSIGN_MUT ''=='' else one ASSIGN)
         else if c = CHR ''+'' then one PLUS
         else if c = CHR ''-'' then (if peekChar l = CHR ''>'' then two ARROW ''->'' else one MINUS)
         else if c = CHR ''*'' then one MULTIPLY
         else if c = CHR ''/'' then one DIVIDE
         else if c = CHR ''%'' then one MODULO
         else if c = CHR ''>'' then (if peekChar l = CHR ''='' then two GTE ''>='' else one GT)
         else if c = CHR ''<'' then (if peekChar l = CHR ''='' then two LTE ''<='' else one LT)
         else if c = CHR ''('' then one LPAREN
         else if c = CHR '')'' then one RPAREN
         else if c = CHR ''{'' then one LBRACE
         else if c = CHR ''}'' then one RBRACE
         else if c = CHR ''['' then one LBRACKET
         else if c = CHR '']'' then one RBRACKET
         else if c = CHR '','' then one COMMA
         else if c = CHR '':'' then one COLON
         else if c = CHR ''.'' then one DOT
         else if c = CHR 0x22 then
           (let (lit, l') = readString l
            in (\<lparr>Type = STRING, Literal = lit, Line = ln, Column = col\<rparr>, readChar l'))
         else if c = CHR 0x00 then
           (\<lparr>Type = EOF, Literal = [], Line = ln, Column = col\<rparr>, readChar l)
         else if isLetter c then
           (let (lit, l') = readIdentifier l
            in (\<lparr>Type = LookupIdent lit, Literal = lit, Line = ln, Column = col\<rparr>, l'))
         else if isDigit c then
           (let ((lit, t), l') = readNumber l
            in (\<lparr>Type = t, Literal = lit, Line = ln, Column = col\<rparr>, l'))
         else one ILLEGAL)"

text \<open>\<open>NextToken\<close> calls itself after a comment; the comment ends at a newline or at the
  end of the input, so the second call does not meet a comment again.\<close>

function NextToken :: "Lexer \<Rightarrow> Token \<times> Lexer" where
  "NextToken l0 =
     (let l = skipWhitespaceExceptNewline l0
      in if ch l = CHR ''/'' \<and> peekChar l = CHR ''/'' then NextToken (skipComment l)
         else nextTokenSwitch l)"
  by pat_completeness auto
termination
  by (relation "measure (\<lambda>l. if ch (skipWhitespaceExceptNewline l) = CHR ''/'' then 1 else 0)")
     (auto simp: skipWhitespace_skipComment)

declare NextToken.simps [simp del]

section \<open>Syntax trees (ast.go)\<close>

text \<open>
  A node keeps the fields the checker, the evaluator and the \<open>String\<close> methods read.
  The \<open>Token\<close> of a node is read only by \<open>TokenLiteral\<close>, which nothing calls, and by
  the \<open>String\<close> method of the number and boolean literals, which print
  \<open>Token.Literal\<close>: these literals keep that text as their first field, every other
  node drops the token.  An \<open>*Identifier\<close> field is the identifier's \<open>Value\<close>.
  A \<open>*BlockStatement\<close> field is the list of the block's statements.  A pointer field
  that the parser leaves \<open>nil\<close> in a program without parse errors is an \<open>option\<close>.
  \<open>NilExpression\<close> is the \<open>nil\<close> interface value of type \<open>Expression\<close>, and
  \<open>NilStatement\<close> is a \<open>Statement\<close> holding a \<open>nil\<close> pointer: the parser builds
  both after it has recorded an error.  A Go map of a node is the list of its entries.
\<close>

type_synonym float64 = "64 word"

datatype TypeAnnotation = TypeAnnotation string "TypeAnnotation list"
datatype FunctionParameter = FunctionParameter string "TypeAnnotation option"
datatype StructField = StructField string "TypeAnnotation option"

datatype Expression =
    NilExpression
  | Identifier string
  | IntegerLiteral string "64 word"
  | FloatLiteral string float64
  | StringLiteral string
  | BooleanLiteral string bool
  | PrefixExpression string Expression
  | InfixExpression Expression string Expression
  | AssignmentExpression string Expression
  | IfExpression Expression "Statement list" "Statement list option"
  | FunctionLiteral "string list" Expression
  | CallExpression Expression "Expression list"
  | MemberExpression Expression string
  | IndexExpression Expression Expression
  | ListLiteral "Expression list"
  | MapLiteral "(Expression \<times> Expression) list"
  | StructLiteral string "(string \<times> Expression) list"
  | WithExpression Expression "(string \<times> Expression) list"
  | OptionExpression bool Expression
  | ResultExpression bool Expression
  | MatchExpression Expression "MatchCase list"
  | MutableExpression "TypeAnnotation option" Expression
and Statement =
    NilStatement
  | DefStatement string "TypeAnnotation option" Expression
  | ReturnStatement Expression
  | ExpressionStatement Expression
  | BlockStatement "Statement list"
  | FunctionStmt FunctionStatement
  | WhileStatement Expression "Statement list"
  | ForStatement string Expression "Statement list"
  | BreakStatement
  | ContinueStatement
  | StructStatement string "StructField list"
  | ExtendStatement string "FunctionStatement list"
  | ImportStatement "string list"
and FunctionStatement =
    FunctionStatement string "FunctionParameter list" "TypeAnnotation option" "Statement list"
and MatchCase =
    MatchCase Expression "string option" "Statement list"

type_synonym Program = "Statement list"

text \<open>The argument of \<open>Eval\<close>: a program, a statement, an expression, or a
  \<open>*BlockStatement\<close> (\<open>None\<close> when the pointer is \<open>nil\<close>).\<close>

datatype Node =
    ProgramNode Program
  | StatementNode Statement
  | ExpressionNode Expression
  | BlockNode "Statement list option"

section \<open>Values (value.go)\<close>

text \<open>
  \<open>FunctionValue name parameters body env isLambda lambdaBody\<close>: \<open>env\<close> is the address
  of the captured environment.  \<open>ErrorValue method input message\<close>.
  \<open>ModuleValue name exports\<close>: \<open>exports\<close> is the address of an environment.
\<close>

datatype FunctionValue =
  FunctionValue string "FunctionParameter list" "Statement list option" nat bool Expression
datatype ErrorValue = ErrorValue string string string
datatype StructDefinition = StructDefinition string "StructField list"
datatype ModuleValue = ModuleValue string nat

text \<open>
  The interface \<open>Value\<close>.  \<open>FunctionV\<close>, \<open>StructDefV\<close>, \<open>ErrorV\<close> and \<open>ModuleV\<close>
  are the structs above seen as a \<open>Value\<close>.  An \<open>OptionValue\<close> is \<open>None\<close> when
  \<open>IsSome\<close> is false and holds its \<open>Value\<close> otherwise; a \<open>ResultValue\<close> is
  \<open>ResultOk v\<close> when \<open>IsOk\<close> is true (with \<open>Value = v\<close>) and \<open>ResultError e\<close> when it
  is false (with \<open>Error = e\<close>): the evaluator builds no other.  A \<open>MutableValue\<close> is the
  address of its cell, since the cell is updated in place and shared.  A
  \<open>BuiltinFunction\<close> is its name.  The maps of \<open>MapValue\<close> and \<open>StructValue\<close> are
  association lists read with \<open>map_of\<close>.
\<close>

datatype Value =
    IntegerValue "64 word"
  | FloatValue float64
  | StringValue string
  | BooleanValue bool
  | NullValue
  | ListValue "Value list"
  | MapValue "(string \<times> Value) list"
  | FunctionV FunctionValue
  | BuiltinFunction string
  | StructDefV StructDefinition
  | StructValue StructDefinition "(string \<times> Value) list"
  | OptionValue "Value option"
  | ResultOk Value
  | ResultError ErrorValue
  | MutableValue nat
  | ErrorV ErrorValue
  | ReturnValue Value
  | BreakValue
  | ContinueValue
  | ModuleV ModuleValue

section \<open>The host: Go's library and the machine\<close>

text \<open>
  The functions of Go's standard library and of the machine that the interpreter calls
  and this development does not define: IEEE arithmetic on \<open>float64\<close> (a value of
  that type is its bit pattern), the formatting verbs \<open>%g\<close> and \<open>%q\<close>, \<open>Sscanf\<close>,
  \<open>strconv.ParseFloat\<close>, the Unicode functions of package \<open>strings\<close>, and
  \<open>filepath.Join\<close>.  They are a parameter \<open>h\<close> of the functions that call them.
\<close>

record Host =
  fadd :: "float64 \<Rightarrow> float64 \<Rightarrow> float64"
  fsub :: "float64 \<Rightarrow> float64 \<Rightarrow> float64"
  fmul :: "float64 \<Rightarrow> float64 \<Rightarrow> float64"
  fdiv :: "float64 \<Rightarrow> float64 \<Rightarrow> float64"
  fneg :: "float64 \<Rightarrow> float64"
  flt :: "float64 \<Rightarrow> float64 \<Rightarrow> bool"
  fle :: "float64 \<Rightarrow> float64 \<Rightarrow> bool"
  feq :: "float64 \<Rightarrow> float64 \<Rightarrow> bool"
  intToFloat :: "64 word \<Rightarrow> float64"
  floatToInt :: "float64 \<Rightarrow> 64 word"
  formatG :: "float64 \<Rightarrow> string"
  formatQ :: "string \<Rightarrow> string"
  sscanInt :: "string \<Rightarrow> 64 word option"
  sscanFloat :: "string \<Rightarrow> float64 option"
  parseFloat :: "string \<Rightarrow> float64 option"
  trimSpace :: "string \<Rightarrow> string"
  toUpper :: "string \<Rightarrow> string"
  toLower :: "string \<Rightarrow> string"
  utf8Chars :: "string \<Rightarrow> string list"
  pathJoin :: "string list \<Rightarrow> string"

section \<open>Environments, the module loader and the evaluator's state\<close>

record Environment =
  store :: "string \<rightharpoonup> Value"
  parent :: "nat option"

record ModuleLoader =
  basePath :: string
  cache :: "string \<rightharpoonup> Program"

text \<open>
  The \<open>Evaluator\<close> struct, followed by what its pointers and the functions it calls
  reach: \<open>envs\<close> is the memory of the environments (\<open>nextEnv\<close> the next free address),
  \<open>cells\<close> the memory of the \<open>MutableValue\<close>s (\<open>nextCell\<close> the next free address),
  \<open>files\<close> the file system as \<open>os.ReadFile\<close> sees it (\<open>Inl\<close> is the text of the
  error), and \<open>stdout\<close> what has been printed.
\<close>

record Evaluator =
  structs :: "string \<rightharpoonup> StructDefinition"
  extensions :: "string \<rightharpoonup> (string \<rightharpoonup> FunctionValue)"
  modules :: "string \<rightharpoonup> ModuleValue"
  loader :: ModuleLoader
  currentFn :: string
  envs :: "nat \<Rightarrow> Environment"
  nextEnv :: nat
  cells :: "nat \<Rightarrow> Value"
  nextCell :: nat
  files :: "string \<Rightarrow> string + string"
  stdout :: string

section \<open>Formatting\<close>

text \<open>\<open>Join\<close> is \<open>strings.Join\<close>; \<open>showInt\<close> is the verb \<open>%d\<close>.\<close>

fun Join :: "string list \<Rightarrow> string \<Rightarrow> string" where
  "Join [] sep = []"
| "Join [x] sep = x"
| "Join (x # y # ys) sep = x @ sep @ Join (y # ys) sep"

definition digitChar :: "nat \<Rightarrow> char" where
  "digitChar d = char_of (48 + d)"

function showNat :: "nat \<Rightarrow> string" where
  "showNat n = (if n < 10 then [digitChar n] else showNat (n div 10) @ [digitChar (n mod 10)])"
  by pat_completeness auto
termination
  by (relation "measure id") auto

declare showNat.simps [simp del]

definition showInt :: "int \<Rightarrow> string" where
  "showInt i = (if i < 0 then CHR ''-'' # showNat (nat (- i)) else showNat (nat i))"

section \<open>Methods of the values (value.go, errors.go)\<close>

fun Value_Type :: "Value \<Rightarrow> string" where
  "Value_Type (IntegerValue _) = ''Integer''"
| "Value_Type (FloatValue _) = ''Float''"
| "Value_Type (StringValue _) = ''String''"
| "Value_Type (BooleanValue _) = ''Boolean''"
| "Value_Type NullValue = ''Null''"
| "Value_Type (ListValue _) = ''List''"
| "Value_Type (MapValue _) = ''Map''"
| "Value_Type (FunctionV _) = ''Function''"
| "Value_Type (BuiltinFunction _) = ''Builtin''"
| "Value_Type (StructDefV _) = ''StructDef''"
| "Value_Type (StructValue (StructDefinition name _) _) = name"
| "Value_Type (OptionValue _) = ''Option''"
| "Value_Type (ResultOk _) = ''Result''"
| "Value_Type (ResultError _) = ''Result''"
| "Value_Type (MutableValue _) = ''Mutable''"
| "Value_Type (ErrorV _) = ''Error''"
| "Value_Type (ReturnValue _) = ''Return''"
| "Value_Type BreakValue = ''Break''"
| "Value_Type ContinueValue = ''Continue''"
| "Value_Type (ModuleV _) = ''Module''"

fun ErrorValue_String :: "ErrorValue \<Rightarrow> string" where
  "ErrorValue_String (ErrorValue method inp message) =
     (if method \<noteq> [] then
        ''Error in '' @ method @ [CHR 0x0A] @ ''Input: '' @ inp @ [CHR 0x0A] @ ''Reason: '' @ message
      else message)"

text \<open>The entries of a Go map in the order of their sorted keys, as the \<open>String\<close>
  methods of \<open>MapValue\<close> and \<open>StructValue\<close> visit them.\<close>

definition sortedPairs :: "(string \<times> 'a) list \<Rightarrow> (string \<times> 'a) list" where
  "sortedPairs ps = map (\<lambda>k. (k, the (map_of ps k))) (sort (remdups (map fst ps)))"

text \<open>\<open>String\<close> follows the pointer of a \<open>MutableValue\<close>, and a cell can hold a list that
  holds the same \<open>MutableValue\<close> again: the recursion is bounded by fuel.\<close>

fun Value_String :: "Host \<Rightarrow> nat \<Rightarrow> (nat \<Rightarrow> Value) \<Rightarrow> Value \<Rightarrow> string option" where
  "Value_String h 0 cs v = None"
| "Value_String h (Suc n) cs v =
     (case v of
        IntegerValue i \<Rightarrow> Some (showInt (sint i))
      | FloatValue f \<Rightarrow> Some (formatG h f)
      | StringValue s \<Rightarrow> Some s
      | BooleanValue b \<Rightarrow> Some (if b then ''true'' else ''false'')
      | NullValue \<Rightarrow> Some ''null''
      | ListValue es \<Rightarrow>
          map_option (\<lambda>elements. ''['' @ Join elements '', '' @ '']'')
            (those (map (Value_String h n cs) es))
      | MapValue ps \<Rightarrow>
          map_option (\<lambda>pairs. ''{'' @ Join pairs '', '' @ ''}'')
            (those (map (\<lambda>(k, x). map_option (\<lambda>t. formatQ h k @ '': '' @ t) (Value_String h n cs x))
                      (sortedPairs ps)))
      | FunctionV f \<Rightarrow>
          (case f of FunctionValue name _ _ _ _ _ \<Rightarrow>
             Some (if name \<noteq> [] then ''<function '' @ name @ ''>'' else ''<lambda>''))
      | BuiltinFunction name \<Rightarrow> Some (''<builtin '' @ name @ ''>'')
      | StructDefV d \<Rightarrow> (case d of StructDefinition name _ \<Rightarrow> Some (''<struct '' @ name @ ''>''))
      | StructValue d fs \<Rightarrow>
          (case d of StructDefinition name _ \<Rightarrow>
             map_option (\<lambda>ts. name @ ''{'' @ Join ts '', '' @ ''}'')
               (those (map (\<lambda>(k, x). map_option (\<lambda>t. k @ '': '' @ t) (Value_String h n cs x))
                         (sortedPairs fs))))
      | OptionValue None \<Rightarrow> Some ''None''
      | OptionValue (Some x) \<Rightarrow> map_option (\<lambda>t. ''Some('' @ t @ '')'') (Value_String h n cs x)
      | ResultOk x \<Rightarrow> map_option (\<lambda>t. ''Ok('' @ t @ '')'') (Value_String h n cs x)
      | ResultError e \<Rightarrow> Some (''Error('' @ ErrorValue_String e @ '')'')
      | MutableValue a \<Rightarrow> Value_String h n cs (cs a)
      | ErrorV e \<Rightarrow> Some (ErrorValue_String e)
      | ReturnValue x \<Rightarrow> Value_String h n cs x
      | BreakValue \<Rightarrow> Some ''break''
      | ContinueValue \<Rightarrow> Some ''continue''
      | ModuleV m \<Rightarrow> (case m of ModuleValue name _ \<Rightarrow> Some (''<module '' @ name @ ''>'')))"

text \<open>Go's \<open>copy(dst, src)\<close> on slices.\<close>

definition copy :: "'a list \<Rightarrow> 'a list \<Rightarrow> 'a list" where
  "copy dst src = (let n = min (length dst) (length src) in take n src @ drop n dst)"

text \<open>\<open>ListValue.Append\<close>: \<open>make\<close> gives a fresh slice of \<open>len + 1\<close> \<open>nil\<close> values
  (\<open>NullValue\<close> stands for them here: every one is overwritten).\<close>

definition Append :: "Value list \<Rightarrow> Value \<Rightarrow> Value" where
  "Append elements v =
     (let newElements = replicate (length elements + 1) NullValue;
          newElements = copy newElements elements;
          newElements = newElements[length elements := v]
      in ListValue newElements)"

text \<open>\<open>StructValue.With\<close>: a new map that receives the fields, then the updates.
  \<open>mapInsertAll m kvs\<close> is the loop \<open>for k, v := range kvs { m[k] = v }\<close>; a loop over
  a Go map meets every key once (\<open>clearjunk\<close> drops what \<open>map_of\<close> does not see), in
  an order Go does not fix and that is the order of the list here.\<close>

definition mapInsertAll :: "(string \<times> 'a) list \<Rightarrow> (string \<times> 'a) list \<Rightarrow> (string \<times> 'a) list" where
  "mapInsertAll m kvs = foldl (\<lambda>acc (k, v). AList.update k v acc) m (AList.clearjunk kvs)"

definition With :: "StructDefinition \<Rightarrow> (string \<times> Value) list \<Rightarrow> (string \<times> Value) list \<Rightarrow> Value" where
  "With d fs updates = StructValue d (mapInsertAll (mapInsertAll [] fs) updates)"

definition UnwrapValue :: "(nat \<Rightarrow> Value) \<Rightarrow> Value \<Rightarrow> Value" where
  "UnwrapValue cs v = (case v of MutableValue a \<Rightarrow> cs a | _ \<Rightarrow> v)"

fun IsTruthy :: "nat \<Rightarrow> (nat \<Rightarrow> Value) \<Rightarrow> Value \<Rightarrow> bool option" where
  "IsTruthy 0 cs v = None"
| "IsTruthy (Suc n) cs v =
     (case v of
        BooleanValue b \<Rightarrow> Some b
      | NullValue \<Rightarrow> Some False
      | IntegerValue i \<Rightarrow> Some (i \<noteq> 0)
      | StringValue s \<Rightarrow> Some (s \<noteq> [])
      | ListValue es \<Rightarrow> Some (length es > 0)
      | OptionValue x \<Rightarrow> Some (x \<noteq> None)
      | MutableValue a \<Rightarrow> IsTruthy n cs (cs a)
      | _ \<Rightarrow> Some True)"

definition isError :: "Value \<Rightarrow> bool" where
  "isError val = (case val of ErrorV _ \<Rightarrow> True | _ \<Rightarrow> False)"

text \<open>\<open>EnrichError\<close> updates the \<open>ErrorValue\<close> it is given and returns it; \<open>input\<close> is
  \<open>None\<close> for a \<open>nil\<close> interface.\<close>

definition EnrichError ::
  "Host \<Rightarrow> nat \<Rightarrow> (nat \<Rightarrow> Value) \<Rightarrow> ErrorValue \<Rightarrow> string \<Rightarrow> Value option \<Rightarrow> ErrorValue option" where
  "EnrichError h n cs err method inp =
     (case err of ErrorValue m i msg \<Rightarrow>
        (let m' = (if m = [] then method else m)
         in if i = [] \<and> inp \<noteq> None
            then map_option (\<lambda>t. ErrorValue m' t msg) (Value_String h n cs (the inp))
            else Some (ErrorValue m' i msg)))"

definition FormatError :: "ErrorValue \<Rightarrow> string" where
  "FormatError err =
     (case err of ErrorValue m i msg \<Rightarrow>
        (if m \<noteq> [] then
           ''Error in '' @ m @ (if i \<noteq> [] then [CHR 0x0A] @ ''Input: '' @ i else [])
             @ [CHR 0x0A] @ ''Reason: '' @ msg
         else msg))"

section \<open>Integer arithmetic of the evaluator\<close>

text \<open>Go's \<open>/\<close> and \<open>%\<close> on \<open>int64\<close>: the quotient is truncated towards zero, the
  remainder has the sign of the dividend, and the quotient of the most negative value
  by \<open>-1\<close> wraps around.  Both are only called with a divisor that is not zero.\<close>

definition goDiv :: "64 word \<Rightarrow> 64 word \<Rightarrow> 64 word" where
  "goDiv a b = word_of_int (sint a sdiv sint b)"

definition goMod :: "64 word \<Rightarrow> 64 word \<Rightarrow> 64 word" where
  "goMod a b = word_of_int (sint a smod sint b)"

text \<open>\<open>&ErrorValue{Message: msg}\<close>.\<close>

definition newError :: "string \<Rightarrow> Value" where
  "newError msg = ErrorV (ErrorValue [] [] msg)"

definition evalIntegerInfixExpression :: "string \<Rightarrow> 64 word \<Rightarrow> 64 word \<Rightarrow> Value" where
  "evalIntegerInfixExpression op left right =
     (if op = ''+'' then IntegerValue (left + right)
      else if op = ''-'' then IntegerValue (left - right)
      else if op = ''*'' then IntegerValue (left * right)
      else if op = ''/'' then
        (if right = 0 then newError ''division by zero'' else IntegerValue (goDiv left right))
      else if op = ''%'' then
        (if right = 0 then newError ''division by zero'' else IntegerValue (goMod left right))
      else if op = ''>'' then BooleanValue (sint left > sint right)
      else if op = ''<'' then BooleanValue (sint left < sint right)
      else if op = ''>='' then BooleanValue (sint left \<ge> sint right)
      else if op = ''<='' then BooleanValue (sint left \<le> sint right)
      else newError (''unknown operator: Integer '' @ op @ '' Integer''))"

section \<open>The \<open>String\<close> methods of the syntax tree\<close>

text \<open>A \<open>String\<close> method called on \<open>nil\<close> panics: the result is \<open>None\<close>.  The methods
  of \<open>MapLiteral\<close>, \<open>StructLiteral\<close> and \<open>WithExpression\<close> range over a Go map, in an
  order Go does not fix; here it is the order of the list.\<close>

fun TypeAnnotation_String :: "TypeAnnotation \<Rightarrow> string" where
  "TypeAnnotation_String (TypeAnnotation name params) =
     (if length params = 0 then name
      else name @ ''['' @ Join (map TypeAnnotation_String params) '', '' @ '']'')"

definition typeHintString :: "TypeAnnotation option \<Rightarrow> string" where
  "typeHintString hint = (case hint of None \<Rightarrow> [] | Some ta \<Rightarrow> '': '' @ TypeAnnotation_String ta)"

fun FunctionParameter_String :: "FunctionParameter \<Rightarrow> string" where
  "FunctionParameter_String (FunctionParameter name hint) = name @ typeHintString hint"

fun StructField_String :: "StructField \<Rightarrow> string" where
  "StructField_String (StructField name hint) = name @ typeHintString hint"

text \<open>\<open>opt2\<close> passes the strings of two children to the rest, or gives \<open>None\<close> when
  a child has none; \<open>blockString\<close> is \<open>BlockStatement.String\<close> on the strings of the
  block's statements.\<close>

definition opt2 :: "'a option \<Rightarrow> 'b option \<Rightarrow> ('a \<Rightarrow> 'b \<Rightarrow> 'c) \<Rightarrow> 'c option" where
  "opt2 a b f = (case a of None \<Rightarrow> None | Some x \<Rightarrow> (case b of None \<Rightarrow> None | Some y \<Rightarrow> Some (f x y)))"

definition blockString :: "string option list \<Rightarrow> string option" where
  "blockString ss = map_option (\<lambda>xs. ''{ '' @ concat xs @ '' }'') (those ss)"

primrec Expression_String :: "Expression \<Rightarrow> string option"
  and Statement_String :: "Statement \<Rightarrow> string option"
  and FunctionStatement_String :: "FunctionStatement \<Rightarrow> string option"
  and MatchCase_String :: "MatchCase \<Rightarrow> string option"
where
  "Expression_String NilExpression = None"
| "Expression_String (Identifier v) = Some v"
| "Expression_String (IntegerLiteral lit w) = Some lit"
| "Expression_String (FloatLiteral lit f) = Some lit"
| "Expression_String (StringLiteral v) = Some ([CHR 0x22] @ v @ [CHR 0x22])"
| "Expression_String (BooleanLiteral lit b) = Some lit"
| "Expression_String (PrefixExpression operator right) =
     map_option (\<lambda>r. ''('' @ operator @ r @ '')'') (Expression_String right)"
| "Expression_String (InfixExpression left operator right) =
     opt2 (Expression_String left) (Expression_String right)
       (\<lambda>a b. ''('' @ a @ '' '' @ operator @ '' '' @ b @ '')'')"
| "Expression_String (AssignmentExpression name v) =
     map_option (\<lambda>r. name @ '' == '' @ r) (Expression_String v)"
| "Expression_String (IfExpression cond cons alt) =
     opt2 (opt2 (Expression_String cond) (blockString (map Statement_String cons))
             (\<lambda>c b. ''if '' @ c @ '' '' @ b))
       (case map_option (map Statement_String) alt of
          None \<Rightarrow> Some []
        | Some a \<Rightarrow> map_option (\<lambda>b. '' else '' @ b) (blockString a))
       (\<lambda>x y. x @ y)"
| "Expression_String (FunctionLiteral params body) =
     map_option (\<lambda>b. ''{ '' @ Join params '', '' @ '' -> '' @ b @ '' }'') (Expression_String body)"
| "Expression_String (CallExpression function args) =
     opt2 (Expression_String function) (those (map Expression_String args))
       (\<lambda>f as. f @ ''('' @ Join as '', '' @ '')'')"
| "Expression_String (MemberExpression object member) =
     map_option (\<lambda>ob. ob @ ''.'' @ member) (Expression_String object)"
| "Expression_String (IndexExpression left index) =
     opt2 (Expression_String left) (Expression_String index)
       (\<lambda>a b. ''('' @ a @ ''['' @ b @ ''])'')"
| "Expression_String (ListLiteral elements) =
     map_option (\<lambda>es. ''['' @ Join es '', '' @ '']'') (those (map Expression_String elements))"
| "Expression_String (MapLiteral pairs) =
     map_option (\<lambda>ps. ''{'' @ Join ps '', '' @ ''}'')
       (those (map (\<lambda>(k, v). opt2 k v (\<lambda>a b. a @ '': '' @ b))
                 (map (map_prod Expression_String Expression_String) pairs)))"
| "Expression_String (StructLiteral name fs) =
     map_option (\<lambda>ss. name @ '' { '' @ Join ss '', '' @ '' }'')
       (those (map (\<lambda>(k, v). map_option (\<lambda>b. k @ '': '' @ b) v)
                 (map (map_prod id Expression_String) fs)))"
| "Expression_String (WithExpression object updates) =
     opt2 (Expression_String object)
       (those (map (\<lambda>(k, v). map_option (\<lambda>b. k @ '': '' @ b) v)
                 (map (map_prod id Expression_String) updates)))
       (\<lambda>ob us. ob @ ''.with { '' @ Join us '', '' @ '' }'')"
| "Expression_String (OptionExpression isSome v) =
     (if isSome then map_option (\<lambda>s. ''Some('' @ s @ '')'') (Expression_String v)
      else Some ''None'')"
| "Expression_String (ResultExpression isOk v) =
     map_option (\<lambda>s. (if isOk then ''Ok('' else ''Error('') @ s @ '')'') (Expression_String v)"
| "Expression_String (MatchExpression v cases) =
     opt2 (Expression_String v) (those (map MatchCase_String cases))
       (\<lambda>a cs. ''match '' @ a @ '' { '' @ concat cs @ ''}'')"
| "Expression_String (MutableExpression hint v) =
     map_option
       (\<lambda>s. ''Mutable''
          @ (case hint of None \<Rightarrow> [] | Some ta \<Rightarrow> ''['' @ TypeAnnotation_String ta @ '']'')
          @ ''('' @ s @ '')'')
       (Expression_String v)"
| "Statement_String NilStatement = None"
| "Statement_String (DefStatement name hint v) =
     map_option (\<lambda>s. ''def '' @ name @ typeHintString hint @ '' = '' @ s)
       (if v \<noteq> NilExpression then Expression_String v else Some [])"
| "Statement_String (ReturnStatement v) =
     map_option (\<lambda>s. ''return '' @ s) (if v \<noteq> NilExpression then Expression_String v else Some [])"
| "Statement_String (ExpressionStatement e) =
     (if e \<noteq> NilExpression then Expression_String e else Some [])"
| "Statement_String (BlockStatement stmts) = blockString (map Statement_String stmts)"
| "Statement_String (FunctionStmt f) = FunctionStatement_String f"
| "Statement_String (WhileStatement cond body) =
     opt2 (Expression_String cond) (blockString (map Statement_String body))
       (\<lambda>c b. ''while '' @ c @ '' '' @ b)"
| "Statement_String (ForStatement var iter body) =
     opt2 (Expression_String iter) (blockString (map Statement_String body))
       (\<lambda>i b. ''for '' @ var @ '' in '' @ i @ '' '' @ b)"
| "Statement_String BreakStatement = Some ''break''"
| "Statement_String ContinueStatement = Some ''continue''"
| "Statement_String (StructStatement name fs) =
     Some (''struct '' @ name @ '' { '' @ Join (map StructField_String fs) '', '' @ '' }'')"
| "Statement_String (ExtendStatement typeName methods) =
     map_option (\<lambda>ms. ''extend '' @ typeName @ '' { '' @ concat (map (\<lambda>m. m @ '' '') ms) @ ''}'')
       (those (map FunctionStatement_String methods))"
| "Statement_String (ImportStatement path) = Some (''import '' @ Join path ''.'')"
| "FunctionStatement_String (FunctionStatement name params ret body) =
     map_option
       (\<lambda>b. ''fun '' @ name @ ''('' @ Join (map FunctionParameter_String params) '', '' @ '')''
          @ (case ret of None \<Rightarrow> [] | Some ta \<Rightarrow> '' -> '' @ TypeAnnotation_String ta)
          @ '' '' @ b)
       (blockString (map Statement_String body))"
| "MatchCase_String (MatchCase pat bindingVar body) =
     opt2 (Expression_String pat) (blockString (map Statement_String body))
       (\<lambda>a b. a @ '' -> '' @ b @ '' '')"

definition Program_String :: "Program \<Rightarrow> string option" where
  "Program_String stmts = map_option concat (those (map Statement_String stmts))"

section \<open>Parser (parser.go)\<close>

text \<open>Operator precedence levels: \<open>iota\<close> numbers them from 1 (the blank identifier
  takes 0).\<close>

definition LOWEST :: nat where "LOWEST = 1"
definition ASSIGN_PREC :: nat where "ASSIGN_PREC = 2"
definition OR_PREC :: nat where "OR_PREC = 3"
definition AND_PREC :: nat where "AND_PREC = 4"
definition IS_PREC :: nat where "IS_PREC = 5"
definition COMPARE_PREC :: nat where "COMPARE_PREC = 6"
definition SUM_PREC :: nat where "SUM_PREC = 7"
definition PRODUCT_PREC :: nat where "PRODUCT_PREC = 8"
definition PREFIX_PREC :: nat where "PREFIX_PREC = 9"
definition CALL_PREC :: nat where "CALL_PREC = 10"
definition INDEX_PREC :: nat where "INDEX_PREC = 11"

definition precedences :: "TokenType \<rightharpoonup> nat" where
  "precedences = map_of
     [(ASSIGN_MUT, ASSIGN_PREC), (OR_T, OR_PREC), (AND_T, AND_PREC), (IS, IS_PREC),
      (GT, COMPARE_PREC), (LT, COMPARE_PREC), (GTE, COMPARE_PREC), (LTE, COMPARE_PREC),
      (PLUS, SUM_PREC), (MINUS, SUM_PREC),
      (MULTIPLY, PRODUCT_PREC), (DIVIDE, PRODUCT_PREC), (MODULO, PRODUCT_PREC),
      (LPAREN, CALL_PREC), (DOT, CALL_PREC), (LBRACKET, INDEX_PREC)]"

text \<open>The fields \<open>l\<close> and \<open>errors\<close> of the parser are \<open>p_l\<close> and \<open>p_errors\<close> here.  The
  two tables of parse functions are the functions \<open>prefixParseFns\<close> and
  \<open>infixParseFns\<close> below, which name the function registered for a token type.\<close>

record Parser =
  p_l :: Lexer
  curToken :: Token
  peekToken :: Token
  p_errors :: "string list"

datatype prefixParseFn =
    parseIdentifierFn | parseIntegerLiteralFn | parseFloatLiteralFn | parseStringLiteralFn
  | parseBooleanLiteralFn | parsePrefixExpressionFn | parseGroupedExpressionFn
  | parseListLiteralFn | parseBraceExpressionFn | parseIfExpressionFn
  | parseOptionExpressionFn | parseResultExpressionFn | parseMatchExpressionFn
  | parseMutableExpressionFn

datatype infixParseFn =
    parseInfixExpressionFn | parseCallExpressionFn | parseMemberExpressionFn
  | parseIndexExpressionFn | parseAssignmentExpressionFn

definition prefixParseFns :: "TokenType \<rightharpoonup> prefixParseFn" where
  "prefixParseFns = map_of
     [(IDENT, parseIdentifierFn), (INTEGER, parseIntegerLiteralFn),
      (FLOAT, parseFloatLiteralFn), (STRING, parseStringLiteralFn),
      (TRUE, parseBooleanLiteralFn), (FALSE, parseBooleanLiteralFn),
      (MINUS, parsePrefixExpressionFn), (NOT_T, parsePrefixExpressionFn),
      (LPAREN, parseGroupedExpressionFn), (LBRACKET, parseListLiteralFn),
      (LBRACE, parseBraceExpressionFn), (IF, parseIfExpressionFn),
      (SOME_T, parseOptionExpressionFn), (NONE, parseOptionExpressionFn),
      (OK, parseResultExpressionFn), (ERROR, parseResultExpressionFn),
      (MATCH, parseMatchExpressionFn), (MUTABLE, parseMutableExpressionFn)]"

definition infixParseFns :: "TokenType \<rightharpoonup> infixParseFn" where
  "infixParseFns = map_of
     [(PLUS, parseInfixExpressionFn), (MINUS, parseInfixExpressionFn),
      (MULTIPLY, parseInfixExpressionFn), (DIVIDE, parseInfixExpressionFn),
      (MODULO, parseInfixExpressionFn), (GT, parseInfixExpressionFn),
      (LT, parseInfixExpressionFn), (GTE, parseInfixExpressionFn),
      (LTE, parseInfixExpressionFn), (AND_T, parseInfixExpressionFn),
      (OR_T, parseInfixExpressionFn), (IS, parseInfixExpressionFn),
      (LPAREN, parseCallExpressionFn), (DOT, parseMemberExpressionFn),
      (LBRACKET, parseIndexExpressionFn), (ASSIGN_MUT, parseAssignmentExpressionFn)]"

definition nextToken :: "Parser \<Rightarrow> Parser" where
  "nextToken p =
     (let (tok, lx) = NextToken (p_l p)
      in p\<lparr>curToken := peekToken p, peekToken := tok, p_l := lx\<rparr>)"

text \<open>The zero value of \<open>Token\<close>, which both tokens hold before the first read.\<close>

definition zeroToken :: Token where
  "zeroToken = \<lparr>Type = ILLEGAL, Literal = [], Line = 0, Column = 0\<rparr>"

definition NewParser :: "Lexer \<Rightarrow> Parser" where
  "NewParser lx =
     nextToken (nextToken \<lparr>p_l = lx, curToken = zeroToken, peekToken = zeroToken, p_errors = []\<rparr>)"

definition addParseError :: "string \<Rightarrow> Parser \<Rightarrow> Parser" where
  "addParseError msg p = p\<lparr>p_errors := p_errors p @ [msg]\<rparr>"

definition peekError :: "TokenType \<Rightarrow> Parser \<Rightarrow> Parser" where
  "peekError t p =
     addParseError (''line '' @ showNat (Line (peekToken p)) @ '': expected next token to be ''
        @ tokenNames t @ '', got '' @ tokenNames (Type (peekToken p)) @ '' instead'') p"

definition curTokenIs :: "TokenType \<Rightarrow> Parser \<Rightarrow> bool" where
  "curTokenIs t p \<longleftrightarrow> Type (curToken p) = t"

definition peekTokenIs :: "TokenType \<Rightarrow> Parser \<Rightarrow> bool" where
  "peekTokenIs t p \<longleftrightarrow> Type (peekToken p) = t"

definition expectPeek :: "TokenType \<Rightarrow> Parser \<Rightarrow> bool \<times> Parser" where
  "expectPeek t p = (if peekTokenIs t p then (True, nextToken p) else (False, peekError t p))"

definition curPrecedence :: "Parser \<Rightarrow> nat" where
  "curPrecedence p = (case precedences (Type (curToken p)) of Some q \<Rightarrow> q | None \<Rightarrow> LOWEST)"

definition peekPrecedence :: "Parser \<Rightarrow> nat" where
  "peekPrecedence p = (case precedences (Type (peekToken p)) of Some q \<Rightarrow> q | None \<Rightarrow> LOWEST)"

text \<open>The loops of the parser are bounded by fuel: they are recursive functions on a
  number \<open>k\<close> and return \<open>None\<close> when it is used up.\<close>

fun skipNewlines :: "nat \<Rightarrow> Parser \<Rightarrow> Parser option" where
  "skipNewlines 0 p = None"
| "skipNewlines (Suc k) p =
     (if curTokenIs NEWLINE p then skipNewlines k (nextToken p) else Some p)"

text \<open>\<open>strconv.ParseInt(s, 0, 64)\<close> on a string of decimal digits, the only text an
  \<open>INTEGER\<close> token has: a leading \<open>0\<close> before other digits makes the number octal, and a
  number that does not fit in \<open>int64\<close> (one from \<open>2 ^ 63 = 9223372036854775808\<close> on) is an
  error.\<close>

definition digitVal :: "char \<Rightarrow> nat" where
  "digitVal c = of_char c - 48"

definition ParseInt :: "string \<Rightarrow> 64 word option" where
  "ParseInt s =
     (let octal = (length s > 1 \<and> hd s = CHR ''0'');
          base = (if octal then 8 else 10);
          ds = (if octal then tl s else s);
          v = foldl (\<lambda>acc c. acc * base + digitVal c) 0 ds
      in if s = [] \<or> \<not> list_all (\<lambda>c. isDigit c \<and> digitVal c < base) ds \<or> v \<ge> 9223372036854775808
         then None else Some (of_nat v))"

fun typeParamsLoop ::
  "nat \<Rightarrow> (Parser \<Rightarrow> (TypeAnnotation \<times> Parser) option) \<Rightarrow> TypeAnnotation list \<Rightarrow> Parser
     \<Rightarrow> (TypeAnnotation list \<times> Parser) option" where
  "typeParamsLoop 0 pt params p = None"
| "typeParamsLoop (Suc k) pt params p =
     (if curTokenIs RBRACKET p then Some (params, p)
      else do {
        (param, p) \<leftarrow> pt p;
        let params = params @ [param];
        if peekTokenIs COMMA p then typeParamsLoop k pt params (nextToken (nextToken p))
        else if peekTokenIs RBRACKET p then typeParamsLoop k pt params (nextToken p)
        else Some (params, p)
      })"

fun parseTypeAnnotation :: "nat \<Rightarrow> Parser \<Rightarrow> (TypeAnnotation \<times> Parser) option" where
  "parseTypeAnnotation 0 p = None"
| "parseTypeAnnotation (Suc n) p =
     (let name = Literal (curToken p)
      in if peekTokenIs LBRACKET p then do {
           (params, p) \<leftarrow> typeParamsLoop n (parseTypeAnnotation n) [] (nextToken (nextToken p));
           Some (TypeAnnotation name params, p)
         }
         else Some (TypeAnnotation name [], p))"

text \<open>An optional type hint after a colon: \<open>if p.peekTokenIs(COLON) {...}\<close>.\<close>

definition parseTypeHint :: "nat \<Rightarrow> Parser \<Rightarrow> (TypeAnnotation option \<times> Parser) option" where
  "parseTypeHint n p =
     (if peekTokenIs COLON p then do {
        (ta, p) \<leftarrow> parseTypeAnnotation n (nextToken (nextToken p));
        Some (Some ta, p)
      }
      else Some (None, p))"

fun functionParametersLoop ::
  "nat \<Rightarrow> FunctionParameter list \<Rightarrow> Parser \<Rightarrow> (FunctionParameter list \<times> Parser) option" where
  "functionParametersLoop 0 params p = None"
| "functionParametersLoop (Suc k) params p =
     (if peekTokenIs COMMA p then do {
        let p = nextToken (nextToken p);
        let name = Literal (curToken p);
        (hint, p) \<leftarrow> parseTypeHint k p;
        functionParametersLoop k (params @ [FunctionParameter name hint]) p
      }
      else Some (params, p))"

text \<open>\<open>parseFunctionParameters\<close> returns a \<open>nil\<close> slice, which is an empty list of
  parameters, when the closing parenthesis is missing.\<close>

definition parseFunctionParameters ::
  "nat \<Rightarrow> Parser \<Rightarrow> (FunctionParameter list \<times> Parser) option" where
  "parseFunctionParameters n p =
     (if peekTokenIs RPAREN p then Some ([], nextToken p)
      else do {
        let p = nextToken p;
        let name = Literal (curToken p);
        (hint, p) \<leftarrow> parseTypeHint n p;
        (params, p) \<leftarrow> functionParametersLoop n [FunctionParameter name hint] p;
        let (ok, p) = expectPeek RPAREN p;
        Some (if ok then params else [], p)
      })"

fun structFieldsLoop ::
  "nat \<Rightarrow> StructField list \<Rightarrow> Parser \<Rightarrow> (StructField list \<times> Parser) option" where
  "structFieldsLoop 0 fs p = None"
| "structFieldsLoop (Suc k) fs p =
     (if \<not> curTokenIs RBRACE p \<and> \<not> curTokenIs EOF p then do {
        let name = Literal (curToken p);
        (hint, p) \<leftarrow> parseTypeHint k p;
        let p = nextToken p;
        let p = (if curTokenIs COMMA p \<or> curTokenIs NEWLINE p then nextToken p else p);
        p \<leftarrow> skipNewlines k p;
        structFieldsLoop k (fs @ [StructField name hint]) p
      }
      else Some (fs, p))"

definition parseStructFields :: "nat \<Rightarrow> Parser \<Rightarrow> (StructField list \<times> Parser) option" where
  "parseStructFields n p = do {
     p \<leftarrow> skipNewlines n (nextToken p);
     structFieldsLoop n [] p
   }"

definition parseStructStatement :: "nat \<Rightarrow> Parser \<Rightarrow> (Statement \<times> Parser) option" where
  "parseStructStatement n p =
     (let (ok, p) = expectPeek IDENT p in
      if \<not> ok then Some (NilStatement, p)
      else let name = Literal (curToken p);
               (ok, p) = expectPeek LBRACE p in
      if \<not> ok then Some (NilStatement, p)
      else do {
        (fs, p) \<leftarrow> parseStructFields n p;
        Some (StructStatement name fs, p)
      })"

fun importPathLoop :: "nat \<Rightarrow> string list \<Rightarrow> Parser \<Rightarrow> (string list \<times> Parser) option" where
  "importPathLoop 0 path p = None"
| "importPathLoop (Suc k) path p =
     (if peekTokenIs DOT p then
        (let p = nextToken (nextToken p) in importPathLoop k (path @ [Literal (curToken p)]) p)
      else Some (path, p))"

definition parseImportStatement :: "nat \<Rightarrow> Parser \<Rightarrow> (Statement \<times> Parser) option" where
  "parseImportStatement n p = do {
     let p = nextToken p;
     (path, p) \<leftarrow> importPathLoop n [Literal (curToken p)] p;
     Some (ImportStatement path, p)
   }"

text \<open>\<open>if !p.expectPeek(t) { return nil }\<close>, followed by the rest \<open>k\<close> of the function.\<close>

definition expecting ::
  "TokenType \<Rightarrow> 'a \<Rightarrow> Parser \<Rightarrow> (Parser \<Rightarrow> ('a \<times> Parser) option) \<Rightarrow> ('a \<times> Parser) option" where
  "expecting t nil p k = (let (ok, p') = expectPeek t p in if ok then k p' else Some (nil, p'))"

text \<open>
  \<open>parseExpression\<close>, \<open>parseStatement\<close> and the functions between them call each
  other.  Each function below takes the ones it calls as arguments: \<open>pe\<close> is
  \<open>parseExpression\<close>, \<open>ps\<close> is \<open>parseStatement\<close>, \<open>pb\<close> is \<open>parseBlockStatement\<close>;
  \<open>n\<close> is the fuel of its loops.  \<open>parseExpression\<close> and \<open>parseStatement\<close> close the
  recursion at the end.
\<close>

type_synonym parseExpressionT = "nat \<Rightarrow> Parser \<Rightarrow> (Expression \<times> Parser) option"
type_synonym parseStatementT = "Parser \<Rightarrow> (Statement \<times> Parser) option"
type_synonym parseBlockT = "Parser \<Rightarrow> (Statement list \<times> Parser) option"

text \<open>\<open>parseStatement\<close> returns an interface that holds a pointer, so that
  \<open>stmt != nil\<close> is true even where the pointer is \<open>nil\<close>: the statement is always
  appended.\<close>

fun blockStatementLoop ::
  "nat \<Rightarrow> parseStatementT \<Rightarrow> Statement list \<Rightarrow> Parser \<Rightarrow> (Statement list \<times> Parser) option" where
  "blockStatementLoop 0 ps stmts p = None"
| "blockStatementLoop (Suc k) ps stmts p =
     (if \<not> curTokenIs RBRACE p \<and> \<not> curTokenIs EOF p then do {
        (stmt, p) \<leftarrow> ps p;
        p \<leftarrow> skipNewlines k (nextToken p);
        blockStatementLoop k ps (stmts @ [stmt]) p
      }
      else Some (stmts, p))"

definition parseBlockStatement :: "nat \<Rightarrow> parseStatementT \<Rightarrow> parseBlockT" where
  "parseBlockStatement n ps p = do {
     p \<leftarrow> skipNewlines n (nextToken p);
     blockStatementLoop n ps [] p
   }"

definition parseDefStatement :: "nat \<Rightarrow> parseExpressionT \<Rightarrow> parseStatementT" where
  "parseDefStatement n pe p =
     expecting IDENT NilStatement p (\<lambda>p. do {
       let name = Literal (curToken p);
       (hint, p) \<leftarrow> parseTypeHint n p;
       expecting ASSIGN NilStatement p (\<lambda>p. do {
         (v, p) \<leftarrow> pe LOWEST (nextToken p);
         Some (DefStatement name hint v, p)
       })
     })"

text \<open>The result of \<open>parseFunctionStatement\<close> is a pointer: \<open>None\<close> is \<open>nil\<close>.\<close>

definition parseFunctionStatement ::
  "nat \<Rightarrow> parseBlockT \<Rightarrow> Parser \<Rightarrow> (FunctionStatement option \<times> Parser) option" where
  "parseFunctionStatement n pb p =
     expecting IDENT None p (\<lambda>p.
       let name = Literal (curToken p) in
       expecting LPAREN None p (\<lambda>p. do {
         (params, p) \<leftarrow> parseFunctionParameters n p;
         (ret, p) \<leftarrow>
           (if peekTokenIs ARROW p then do {
              (ta, p) \<leftarrow> parseTypeAnnotation n (nextToken (nextToken p));
              Some (Some ta, p)
            }
            else Some (None, p));
         expecting LBRACE None p (\<lambda>p. do {
           (body, p) \<leftarrow> pb p;
           Some (Some (FunctionStatement name params ret body), p)
         })
       }))"

definition parseReturnStatement :: "parseExpressionT \<Rightarrow> parseStatementT" where
  "parseReturnStatement pe p =
     (let p = nextToken p
      in if \<not> curTokenIs NEWLINE p \<and> \<not> curTokenIs RBRACE p \<and> \<not> curTokenIs EOF p then do {
           (v, p) \<leftarrow> pe LOWEST p;
           Some (ReturnStatement v, p)
         }
         else Some (ReturnStatement NilExpression, p))"

definition parseWhileStatement :: "parseExpressionT \<Rightarrow> parseBlockT \<Rightarrow> parseStatementT" where
  "parseWhileStatement pe pb p = do {
     (cond, p) \<leftarrow> pe LOWEST (nextToken p);
     expecting LBRACE NilStatement p (\<lambda>p. do {
       (body, p) \<leftarrow> pb p;
       Some (WhileStatement cond body, p)
     })
   }"

definition parseForStatement :: "parseExpressionT \<Rightarrow> parseBlockT \<Rightarrow> parseStatementT" where
  "parseForStatement pe pb p =
     expecting IDENT NilStatement p (\<lambda>p.
       let var = Literal (curToken p) in
       expecting IN NilStatement p (\<lambda>p. do {
         (iter, p) \<leftarrow> pe LOWEST (nextToken p);
         expecting LBRACE NilStatement p (\<lambda>p. do {
           (body, p) \<leftarrow> pb p;
           Some (ForStatement var iter body, p)
         })
       }))"

fun extendMethodsLoop ::
  "nat \<Rightarrow> parseBlockT \<Rightarrow> FunctionStatement list \<Rightarrow> Parser
     \<Rightarrow> (FunctionStatement list \<times> Parser) option" where
  "extendMethodsLoop 0 pb methods p = None"
| "extendMethodsLoop (Suc k) pb methods p =
     (if \<not> curTokenIs RBRACE p \<and> \<not> curTokenIs EOF p then do {
        (methods, p) \<leftarrow>
          (if curTokenIs FUN p then do {
             (method, p) \<leftarrow> parseFunctionStatement k pb p;
             Some (case method of Some m \<Rightarrow> methods @ [m] | None \<Rightarrow> methods, p)
           }
           else Some (methods, p));
        p \<leftarrow> skipNewlines k (nextToken p);
        extendMethodsLoop k pb methods p
      }
      else Some (methods, p))"

definition parseExtendStatement :: "nat \<Rightarrow> parseBlockT \<Rightarrow> parseStatementT" where
  "parseExtendStatement n pb p =
     expecting IDENT NilStatement p (\<lambda>p.
       let typeName = Literal (curToken p) in
       expecting LBRACE NilStatement p (\<lambda>p. do {
         p \<leftarrow> skipNewlines n (nextToken p);
         (methods, p) \<leftarrow> extendMethodsLoop n pb [] p;
         Some (ExtendStatement typeName methods, p)
       }))"

definition parseExpressionStatement :: "parseExpressionT \<Rightarrow> parseStatementT" where
  "parseExpressionStatement pe p = do {
     (e, p) \<leftarrow> pe LOWEST p;
     Some (ExpressionStatement e, p)
   }"

subsection \<open>Prefix parse functions\<close>

definition parseIntegerLiteral :: "Host \<Rightarrow> Parser \<Rightarrow> Expression \<times> Parser" where
  "parseIntegerLiteral h p =
     (case ParseInt (Literal (curToken p)) of
        None \<Rightarrow>
          (NilExpression,
           addParseError (''line '' @ showNat (Line (curToken p)) @ '': could not parse ''
              @ formatQ h (Literal (curToken p)) @ '' as integer'') p)
      | Some v \<Rightarrow> (IntegerLiteral (Literal (curToken p)) v, p))"

definition parseFloatLiteral :: "Host \<Rightarrow> Parser \<Rightarrow> Expression \<times> Parser" where
  "parseFloatLiteral h p =
     (case parseFloat h (Literal (curToken p)) of
        None \<Rightarrow>
          (NilExpression,
           addParseError (''line '' @ showNat (Line (curToken p)) @ '': could not parse ''
              @ formatQ h (Literal (curToken p)) @ '' as float'') p)
      | Some v \<Rightarrow> (FloatLiteral (Literal (curToken p)) v, p))"

definition parseStringLiteral :: "Parser \<Rightarrow> Expression \<times> Parser" where
  "parseStringLiteral p = (StringLiteral (Literal (curToken p)), p)"

definition parseBooleanLiteral :: "Parser \<Rightarrow> Expression \<times> Parser" where
  "parseBooleanLiteral p = (BooleanLiteral (Literal (curToken p)) (curTokenIs TRUE p), p)"

definition parsePrefixExpression :: "parseExpressionT \<Rightarrow> Parser \<Rightarrow> (Expression \<times> Parser) option" where
  "parsePrefixExpression pe p = do {
     let operator = Literal (curToken p);
     (right, p) \<leftarrow> pe PREFIX_PREC (nextToken p);
     Some (PrefixExpression operator right, p)
   }"

definition parseGroupedExpression :: "parseExpressionT \<Rightarrow> Parser \<Rightarrow> (Expression \<times> Parser) option" where
  "parseGroupedExpression pe p = do {
     (exp, p) \<leftarrow> pe LOWEST (nextToken p);
     expecting RPAREN NilExpression p (\<lambda>p. Some (exp, p))
   }"

fun expressionListLoop ::
  "nat \<Rightarrow> parseExpressionT \<Rightarrow> Expression list \<Rightarrow> Parser \<Rightarrow> (Expression list \<times> Parser) option" where
  "expressionListLoop 0 pe es p = None"
| "expressionListLoop (Suc k) pe es p =
     (if peekTokenIs COMMA p then do {
        (e, p) \<leftarrow> pe LOWEST (nextToken (nextToken p));
        expressionListLoop k pe (es @ [e]) p
      }
      else Some (es, p))"

definition parseExpressionList ::
  "nat \<Rightarrow> parseExpressionT \<Rightarrow> TokenType \<Rightarrow> Parser \<Rightarrow> (Expression list \<times> Parser) option" where
  "parseExpressionList n pe end_t p =
     (if peekTokenIs end_t p then Some ([], nextToken p)
      else do {
        (e, p) \<leftarrow> pe LOWEST (nextToken p);
        (es, p) \<leftarrow> expressionListLoop n pe [e] p;
        expecting end_t [] p (\<lambda>p. Some (es, p))
      })"

definition parseListLiteral :: "nat \<Rightarrow> parseExpressionT \<Rightarrow> Parser \<Rightarrow> (Expression \<times> Parser) option" where
  "parseListLiteral n pe p = do {
     (es, p) \<leftarrow> parseExpressionList n pe RBRACKET p;
     Some (ListLiteral es, p)
   }"

text \<open>The loop shared by the bodies of a struct literal and of \<open>.with { ... }\<close>:
  \<open>None\<close> as the list is the \<open>return nil\<close> of a missing colon.\<close>

fun fieldValuesLoop ::
  "nat \<Rightarrow> parseExpressionT \<Rightarrow> (string \<times> Expression) list \<Rightarrow> Parser
     \<Rightarrow> ((string \<times> Expression) list option \<times> Parser) option" where
  "fieldValuesLoop 0 pe fs p = None"
| "fieldValuesLoop (Suc k) pe fs p =
     (if \<not> curTokenIs RBRACE p \<and> \<not> curTokenIs EOF p then
        (let fieldName = Literal (curToken p) in
         expecting COLON None p (\<lambda>p. do {
           (e, p) \<leftarrow> pe LOWEST (nextToken p);
           let p = nextToken p;
           let p = (if curTokenIs COMMA p \<or> curTokenIs NEWLINE p then nextToken p else p);
           p \<leftarrow> skipNewlines k p;
           fieldValuesLoop k pe (AList.update fieldName e fs) p
         }))
      else Some (Some fs, p))"

definition parseStructLiteralBody ::
  "nat \<Rightarrow> parseExpressionT \<Rightarrow> string \<Rightarrow> Parser \<Rightarrow> (Expression \<times> Parser) option" where
  "parseStructLiteralBody n pe name p = do {
     p \<leftarrow> skipNewlines n (nextToken p);
     (fs, p) \<leftarrow> fieldValuesLoop n pe [] p;
     Some (case fs of None \<Rightarrow> NilExpression | Some fs \<Rightarrow> StructLiteral name fs, p)
   }"

definition maybeParseStructLiteral ::
  "nat \<Rightarrow> parseExpressionT \<Rightarrow> string \<Rightarrow> Parser \<Rightarrow> (Expression \<times> Parser) option" where
  "maybeParseStructLiteral n pe name p =
     (if length name > 0 \<and> hd name \<ge> CHR ''A'' \<and> hd name \<le> CHR ''Z'' \<and> peekTokenIs LBRACE p
      then parseStructLiteralBody n pe name (nextToken p)
      else Some (Identifier name, p))"

definition parseIdentifier :: "nat \<Rightarrow> parseExpressionT \<Rightarrow> Parser \<Rightarrow> (Expression \<times> Parser) option" where
  "parseIdentifier n pe p =
     (let name = Literal (curToken p)
      in if peekTokenIs LBRACE p then maybeParseStructLiteral n pe name p
         else Some (Identifier name, p))"

definition parseLambdaWithFirstParam :: "parseExpressionT \<Rightarrow> Parser \<Rightarrow> (Expression \<times> Parser) option" where
  "parseLambdaWithFirstParam pe p = do {
     let param = Literal (curToken p);
     (body, p) \<leftarrow> pe LOWEST (nextToken (nextToken p));
     expecting RBRACE NilExpression p (\<lambda>p. Some (FunctionLiteral [param] body, p))
   }"

fun lambdaParamsLoop :: "nat \<Rightarrow> string list \<Rightarrow> Parser \<Rightarrow> (string list \<times> Parser) option" where
  "lambdaParamsLoop 0 params p = None"
| "lambdaParamsLoop (Suc k) params p =
     (if peekTokenIs COMMA p then
        (let p = nextToken (nextToken p) in lambdaParamsLoop k (params @ [Literal (curToken p)]) p)
      else Some (params, p))"

definition parseLambdaMultiParam ::
  "nat \<Rightarrow> parseExpressionT \<Rightarrow> Parser \<Rightarrow> (Expression \<times> Parser) option" where
  "parseLambdaMultiParam n pe p = do {
     (params, p) \<leftarrow> lambdaParamsLoop n [Literal (curToken p)] p;
     expecting ARROW NilExpression p (\<lambda>p. do {
       (body, p) \<leftarrow> pe LOWEST (nextToken p);
       expecting RBRACE NilExpression p (\<lambda>p. Some (FunctionLiteral params body, p))
     })
   }"

text \<open>\<open>ml.Pairs[key] = value\<close>: the key is an interface holding a pointer to a new
  node, equal to no other key, unless it is \<open>nil\<close>.\<close>

definition mapLiteralPut ::
  "Expression \<Rightarrow> Expression \<Rightarrow> (Expression \<times> Expression) list \<Rightarrow> (Expression \<times> Expression) list" where
  "mapLiteralPut k v pairs =
     (if k = NilExpression then AList.update k v pairs else pairs @ [(k, v)])"

fun mapLiteralLoop ::
  "nat \<Rightarrow> parseExpressionT \<Rightarrow> (Expression \<times> Expression) list \<Rightarrow> Parser
     \<Rightarrow> (Expression \<times> Parser) option" where
  "mapLiteralLoop 0 pe pairs p = None"
| "mapLiteralLoop (Suc k) pe pairs p =
     (if \<not> curTokenIs RBRACE p \<and> \<not> curTokenIs EOF p then do {
        (key, p) \<leftarrow> pe LOWEST p;
        expecting COLON NilExpression p (\<lambda>p. do {
          (v, p) \<leftarrow> pe LOWEST (nextToken p);
          let p = nextToken p;
          let p = (if curTokenIs COMMA p \<or> curTokenIs NEWLINE p then nextToken p else p);
          p \<leftarrow> skipNewlines k p;
          mapLiteralLoop k pe (mapLiteralPut key v pairs) p
        })
      }
      else Some (MapLiteral pairs, p))"

definition parseMapLiteralBody ::
  "nat \<Rightarrow> parseExpressionT \<Rightarrow> Parser \<Rightarrow> (Expression \<times> Parser) option" where
  "parseMapLiteralBody n pe p = mapLiteralLoop n pe [] p"

definition parseBraceExpression ::
  "nat \<Rightarrow> parseExpressionT \<Rightarrow> Parser \<Rightarrow> (Expression \<times> Parser) option" where
  "parseBraceExpression n pe p = do {
     p \<leftarrow> skipNewlines n (nextToken p);
     if curTokenIs RBRACE p then Some (MapLiteral [], p)
     else if curTokenIs IDENT p \<and> peekTokenIs ARROW p then parseLambdaWithFirstParam pe p
     else if curTokenIs IDENT p \<and> peekTokenIs COMMA p then parseLambdaMultiParam n pe p
     else parseMapLiteralBody n pe p
   }"

definition parseIfExpression ::
  "parseExpressionT \<Rightarrow> parseBlockT \<Rightarrow> Parser \<Rightarrow> (Expression \<times> Parser) option" where
  "parseIfExpression pe pb p = do {
     (cond, p) \<leftarrow> pe LOWEST (nextToken p);
     expecting LBRACE NilExpression p (\<lambda>p. do {
       (cons, p) \<leftarrow> pb p;
       if peekTokenIs ELSE p then
         expecting LBRACE NilExpression (nextToken p) (\<lambda>p. do {
           (alt, p) \<leftarrow> pb p;
           Some (IfExpression cond cons (Some alt), p)
         })
       else Some (IfExpression cond cons None, p)
     })
   }"

text \<open>\<open>parseIfStatement\<close> asserts that the expression is an \<open>*IfExpression\<close> and
  panics when \<open>parseIfExpression\<close> has returned \<open>nil\<close>.\<close>

definition parseIfStatement :: "parseExpressionT \<Rightarrow> parseBlockT \<Rightarrow> parseStatementT" where
  "parseIfStatement pe pb p = do {
     (expr, p) \<leftarrow> parseIfExpression pe pb p;
     (case expr of IfExpression _ _ _ \<Rightarrow> Some (ExpressionStatement expr, p) | _ \<Rightarrow> None)
   }"

definition parseOptionExpression :: "parseExpressionT \<Rightarrow> Parser \<Rightarrow> (Expression \<times> Parser) option" where
  "parseOptionExpression pe p =
     (if curTokenIs NONE p then Some (OptionExpression False NilExpression, p)
      else expecting LPAREN NilExpression p (\<lambda>p. do {
        (v, p) \<leftarrow> pe LOWEST (nextToken p);
        expecting RPAREN NilExpression p (\<lambda>p. Some (OptionExpression True v, p))
      }))"

definition parseResultExpression :: "parseExpressionT \<Rightarrow> Parser \<Rightarrow> (Expression \<times> Parser) option" where
  "parseResultExpression pe p =
     (let isOk = curTokenIs OK p in
      expecting LPAREN NilExpression p (\<lambda>p. do {
        (v, p) \<leftarrow> pe LOWEST (nextToken p);
        expecting RPAREN NilExpression p (\<lambda>p. Some (ResultExpression isOk v, p))
      }))"

text \<open>The result of \<open>parseMatchCase\<close> is a pointer: \<open>None\<close> is \<open>nil\<close>.  The form with a
  single expression is reached after \<open>expectPeek(LBRACE)\<close> has failed, which records
  an error.\<close>

definition parseMatchCase ::
  "parseExpressionT \<Rightarrow> parseBlockT \<Rightarrow> Parser \<Rightarrow> (MatchCase option \<times> Parser) option" where
  "parseMatchCase pe pb p = do {
     (pat, p) \<leftarrow> pe LOWEST p;
     let bindingVar =
       (case pat of
          OptionExpression isSome v \<Rightarrow>
            (if isSome then (case v of Identifier x \<Rightarrow> Some x | _ \<Rightarrow> None) else None)
        | ResultExpression _ v \<Rightarrow> (case v of Identifier x \<Rightarrow> Some x | _ \<Rightarrow> None)
        | _ \<Rightarrow> None);
     expecting ARROW None p (\<lambda>p.
       let (ok, p) = expectPeek LBRACE p in
       if \<not> ok then do {
         (expr, p) \<leftarrow> pe LOWEST (nextToken p);
         Some (Some (MatchCase pat bindingVar [ExpressionStatement expr]), p)
       }
       else do {
         (body, p) \<leftarrow> pb p;
         Some (Some (MatchCase pat bindingVar body), p)
       })
   }"

fun matchCasesLoop ::
  "nat \<Rightarrow> parseExpressionT \<Rightarrow> parseBlockT \<Rightarrow> MatchCase list \<Rightarrow> Parser
     \<Rightarrow> (MatchCase list \<times> Parser) option" where
  "matchCasesLoop 0 pe pb cases p = None"
| "matchCasesLoop (Suc k) pe pb cases p =
     (if \<not> curTokenIs RBRACE p \<and> \<not> curTokenIs EOF p then do {
        (matchCase, p) \<leftarrow> parseMatchCase pe pb p;
        let cases = (case matchCase of Some c \<Rightarrow> cases @ [c] | None \<Rightarrow> cases);
        p \<leftarrow> skipNewlines k (nextToken p);
        matchCasesLoop k pe pb cases p
      }
      else Some (cases, p))"

definition parseMatchExpression ::
  "nat \<Rightarrow> parseExpressionT \<Rightarrow> parseBlockT \<Rightarrow> Parser \<Rightarrow> (Expression \<times> Parser) option" where
  "parseMatchExpression n pe pb p = do {
     (v, p) \<leftarrow> pe LOWEST (nextToken p);
     expecting LBRACE NilExpression p (\<lambda>p. do {
       p \<leftarrow> skipNewlines n (nextToken p);
       (cases, p) \<leftarrow> matchCasesLoop n pe pb [] p;
       Some (MatchExpression v cases, p)
     })
   }"

definition parseMutableExpression ::
  "nat \<Rightarrow> parseExpressionT \<Rightarrow> Parser \<Rightarrow> (Expression \<times> Parser) option" where
  "parseMutableExpression n pe p =
     (let rest = (\<lambda>hint p.
            expecting LPAREN NilExpression p (\<lambda>p. do {
              (v, p) \<leftarrow> pe LOWEST (nextToken p);
              expecting RPAREN NilExpression p (\<lambda>p. Some (MutableExpression hint v, p))
            }))
      in if peekTokenIs LBRACKET p then do {
           (ta, p) \<leftarrow> parseTypeAnnotation n (nextToken (nextToken p));
           expecting RBRACKET NilExpression p (rest (Some ta))
         }
         else rest None p)"

subsection \<open>Infix parse functions\<close>

definition parseInfixExpression ::
  "parseExpressionT \<Rightarrow> Expression \<Rightarrow> Parser \<Rightarrow> (Expression \<times> Parser) option" where
  "parseInfixExpression pe left p = do {
     let operator = Literal (curToken p);
     let precedence = curPrecedence p;
     (right, p) \<leftarrow> pe precedence (nextToken p);
     Some (InfixExpression left operator right, p)
   }"

definition parseAssignmentExpression ::
  "parseExpressionT \<Rightarrow> Expression \<Rightarrow> Parser \<Rightarrow> (Expression \<times> Parser) option" where
  "parseAssignmentExpression pe left p =
     (case left of
        Identifier name \<Rightarrow> do {
          (v, p) \<leftarrow> pe LOWEST (nextToken p);
          Some (AssignmentExpression name v, p)
        }
      | _ \<Rightarrow>
          Some (NilExpression,
                addParseError (''line '' @ showNat (Line (curToken p))
                   @ '': left side of == must be an identifier'') p))"

definition parseCallExpression ::
  "nat \<Rightarrow> parseExpressionT \<Rightarrow> Expression \<Rightarrow> Parser \<Rightarrow> (Expression \<times> Parser) option" where
  "parseCallExpression n pe function p = do {
     (args, p) \<leftarrow> parseExpressionList n pe RPAREN p;
     Some (CallExpression function args, p)
   }"

definition parseWithExpression ::
  "nat \<Rightarrow> parseExpressionT \<Rightarrow> Expression \<Rightarrow> Parser \<Rightarrow> (Expression \<times> Parser) option" where
  "parseWithExpression n pe object p = do {
     p \<leftarrow> skipNewlines n (nextToken (nextToken p));
     (updates, p) \<leftarrow> fieldValuesLoop n pe [] p;
     Some (case updates of None \<Rightarrow> NilExpression | Some us \<Rightarrow> WithExpression object us, p)
   }"

definition parseMemberExpression ::
  "nat \<Rightarrow> parseExpressionT \<Rightarrow> Expression \<Rightarrow> Parser \<Rightarrow> (Expression \<times> Parser) option" where
  "parseMemberExpression n pe object p =
     expecting IDENT NilExpression p (\<lambda>p.
       let member = Literal (curToken p)
       in if member = ''with'' \<and> peekTokenIs LBRACE p then parseWithExpression n pe object p
          else Some (MemberExpression object member, p))"

definition parseIndexExpression ::
  "parseExpressionT \<Rightarrow> Expression \<Rightarrow> Parser \<Rightarrow> (Expression \<times> Parser) option" where
  "parseIndexExpression pe left p = do {
     (index, p) \<leftarrow> pe LOWEST (nextToken p);
     expecting RBRACKET NilExpression p (\<lambda>p. Some (IndexExpression left index, p))
   }"

subsection \<open>\<open>parseExpression\<close> and \<open>parseStatement\<close>\<close>

definition callPrefix ::
  "Host \<Rightarrow> nat \<Rightarrow> parseExpressionT \<Rightarrow> parseBlockT \<Rightarrow> prefixParseFn \<Rightarrow> Parser
     \<Rightarrow> (Expression \<times> Parser) option" where
  "callPrefix h n pe pb f p =
     (case f of
        parseIdentifierFn \<Rightarrow> parseIdentifier n pe p
      | parseIntegerLiteralFn \<Rightarrow> Some (parseIntegerLiteral h p)
      | parseFloatLiteralFn \<Rightarrow> Some (parseFloatLiteral h p)
      | parseStringLiteralFn \<Rightarrow> Some (parseStringLiteral p)
      | parseBooleanLiteralFn \<Rightarrow> Some (parseBooleanLiteral p)
      | parsePrefixExpressionFn \<Rightarrow> parsePrefixExpression pe p
      | parseGroupedExpressionFn \<Rightarrow> parseGroupedExpression pe p
      | parseListLiteralFn \<Rightarrow> parseListLiteral n pe p
      | parseBraceExpressionFn \<Rightarrow> parseBraceExpression n pe p
      | parseIfExpressionFn \<Rightarrow> parseIfExpression pe pb p
      | parseOptionExpressionFn \<Rightarrow> parseOptionExpression pe p
      | parseResultExpressionFn \<Rightarrow> parseResultExpression pe p
      | parseMatchExpressionFn \<Rightarrow> parseMatchExpression n pe pb p
      | parseMutableExpressionFn \<Rightarrow> parseMutableExpression n pe p)"

definition callInfix ::
  "nat \<Rightarrow> parseExpressionT \<Rightarrow> infixParseFn \<Rightarrow> Expression \<Rightarrow> Parser
     \<Rightarrow> (Expression \<times> Parser) option" where
  "callInfix n pe f left p =
     (case f of
        parseInfixExpressionFn \<Rightarrow> parseInfixExpression pe left p
      | parseCallExpressionFn \<Rightarrow> parseCallExpression n pe left p
      | parseMemberExpressionFn \<Rightarrow> parseMemberExpression n pe left p
      | parseIndexExpressionFn \<Rightarrow> parseIndexExpression pe left p
      | parseAssignmentExpressionFn \<Rightarrow> parseAssignmentExpression pe left p)"

text \<open>The loop of \<open>parseExpression\<close> that extends \<open>leftExp\<close> while the next operator
  binds tighter than \<open>precedence\<close>.\<close>

fun infixLoop ::
  "nat \<Rightarrow> parseExpressionT \<Rightarrow> nat \<Rightarrow> Expression \<Rightarrow> Parser \<Rightarrow> (Expression \<times> Parser) option" where
  "infixLoop 0 pe precedence leftExp p = None"
| "infixLoop (Suc k) pe precedence leftExp p =
     (if \<not> peekTokenIs NEWLINE p \<and> \<not> peekTokenIs EOF p \<and> precedence < peekPrecedence p then
        (case infixParseFns (Type (peekToken p)) of
           None \<Rightarrow> Some (leftExp, p)
         | Some infix_fn \<Rightarrow> do {
             (leftExp, p) \<leftarrow> callInfix k pe infix_fn leftExp (nextToken p);
             infixLoop k pe precedence leftExp p
           })
      else Some (leftExp, p))"

definition parseExpressionBody ::
  "Host \<Rightarrow> nat \<Rightarrow> parseExpressionT \<Rightarrow> parseBlockT \<Rightarrow> nat \<Rightarrow> Parser
     \<Rightarrow> (Expression \<times> Parser) option" where
  "parseExpressionBody h n pe pb precedence p =
     (case prefixParseFns (Type (curToken p)) of
        None \<Rightarrow>
          Some (NilExpression,
                addParseError (''line '' @ showNat (Line (curToken p))
                   @ '': no prefix parse function for '' @ tokenNames (Type (curToken p))
                   @ '' found'') p)
      | Some prefix_fn \<Rightarrow> do {
          (leftExp, p) \<leftarrow> callPrefix h n pe pb prefix_fn p;
          infixLoop n pe precedence leftExp p
        })"

definition parseStatementBody ::
  "nat \<Rightarrow> parseExpressionT \<Rightarrow> parseBlockT \<Rightarrow> parseStatementT" where
  "parseStatementBody n pe pb p =
     (let t = Type (curToken p) in
      if t = DEF then parseDefStatement n pe p
      else if t = FUN then do {
        (f, p) \<leftarrow> parseFunctionStatement n pb p;
        Some (case f of Some f \<Rightarrow> FunctionStmt f | None \<Rightarrow> NilStatement, p)
      }
      else if t = RETURN then parseReturnStatement pe p
      else if t = IF then parseIfStatement pe pb p
      else if t = WHILE then parseWhileStatement pe pb p
      else if t = FOR then parseForStatement pe pb p
      else if t = BREAK then Some (BreakStatement, p)
      else if t = CONTINUE then Some (ContinueStatement, p)
      else if t = STRUCT then parseStructStatement n p
      else if t = EXTEND then parseExtendStatement n pb p
      else if t = IMPORT then parseImportStatement n p
      else parseExpressionStatement pe p)"

fun parseExpression :: "Host \<Rightarrow> nat \<Rightarrow> nat \<Rightarrow> Parser \<Rightarrow> (Expression \<times> Parser) option"
and parseStatement :: "Host \<Rightarrow> nat \<Rightarrow> Parser \<Rightarrow> (Statement \<times> Parser) option" where
  "parseExpression h 0 precedence p = None"
| "parseExpression h (Suc n) precedence p =
     parseExpressionBody h n (parseExpression h n) (parseBlockStatement n (parseStatement h n))
       precedence p"
| "parseStatement h 0 p = None"
| "parseStatement h (Suc n) p =
     parseStatementBody n (parseExpression h n) (parseBlockStatement n (parseStatement h n)) p"

fun programLoop ::
  "nat \<Rightarrow> parseStatementT \<Rightarrow> Statement list \<Rightarrow> Parser \<Rightarrow> (Program \<times> Parser) option" where
  "programLoop 0 ps stmts p = None"
| "programLoop (Suc k) ps stmts p =
     (if \<not> curTokenIs EOF p then do {
        p \<leftarrow> skipNewlines k p;
        if curTokenIs EOF p then Some (stmts, p)
        else do {
          (stmt, p) \<leftarrow> ps p;
          programLoop k ps (stmts @ [stmt]) (nextToken p)
        }
      }
      else Some (stmts, p))"

definition ParseProgram :: "Host \<Rightarrow> nat \<Rightarrow> Parser \<Rightarrow> (Program \<times> Parser) option" where
  "ParseProgram h n p = programLoop n (parseStatement h n) [] p"


text \<open>The first lines of \<open>Run\<close> and of \<open>Load\<close>: the program a source text parses to,
  with the parser's errors.\<close>

definition parseSource :: "Host \<Rightarrow> nat \<Rightarrow> string \<Rightarrow> (Program \<times> string list) option" where
  "parseSource h n source =
     map_option (\<lambda>(program, p). (program, p_errors p))
       (ParseProgram h n (NewParser (NewLexer source)))"


section \<open>Environments\<close>

definition NewEnvironment :: "Evaluator \<Rightarrow> nat \<times> Evaluator" where
  "NewEnvironment st =
     (let a = nextEnv st
      in (a, st\<lparr>envs := (envs st)(a := \<lparr>store = Map.empty, parent = None\<rparr>), nextEnv := a + 1\<rparr>))"

definition NewEnclosedEnvironment :: "nat \<Rightarrow> Evaluator \<Rightarrow> nat \<times> Evaluator" where
  "NewEnclosedEnvironment outer st =
     (let a = nextEnv st
      in (a, st\<lparr>envs := (envs st)(a := \<lparr>store = Map.empty, parent = Some outer\<rparr>),
               nextEnv := a + 1\<rparr>))"

text \<open>\<open>Environment.Get\<close> is \<open>Some (Some v)\<close> for \<open>(v, true)\<close> and \<open>Some None\<close> for
  \<open>(nil, false)\<close>; it follows the parents, with fuel.\<close>

fun Environment_Get :: "nat \<Rightarrow> (nat \<Rightarrow> Environment) \<Rightarrow> nat \<Rightarrow> string \<Rightarrow> Value option option" where
  "Environment_Get 0 es a name = None"
| "Environment_Get (Suc n) es a name =
     (case store (es a) name of
        Some v \<Rightarrow> Some (Some v)
      | None \<Rightarrow>
          (case parent (es a) of
             Some outer \<Rightarrow> Environment_Get n es outer name
           | None \<Rightarrow> Some None))"

definition Environment_Set :: "nat \<Rightarrow> string \<Rightarrow> Value \<Rightarrow> Evaluator \<Rightarrow> Evaluator" where
  "Environment_Set a name val st =
     st\<lparr>envs := (envs st)(a := (envs st a)\<lparr>store := (store (envs st a))(name \<mapsto> val)\<rparr>)\<rparr>"

section \<open>The module loader (module.go)\<close>

text \<open>\<open>strings.Split(s, sep)\<close> for a separator that is not empty.\<close>

function splitOn :: "string \<Rightarrow> string \<Rightarrow> string \<Rightarrow> string list" where
  "splitOn sep acc s =
     (if s = [] then [acc]
      else if sep \<noteq> [] \<and> take (length sep) s = sep then acc # splitOn sep [] (drop (length sep) s)
      else splitOn sep (acc @ [hd s]) (tl s))"
  by pat_completeness auto
termination
  by (relation "measure (\<lambda>(sep, acc, s). length s)") auto

declare splitOn.simps [simp del]

text \<open>\<open>NewModuleLoader\<close> asks the system for the working directory, \<open>cwd\<close> here.\<close>

definition NewModuleLoader :: "string \<Rightarrow> ModuleLoader" where
  "NewModuleLoader cwd = \<lparr>basePath = cwd, cache = Map.empty\<rparr>"

definition SetBasePath :: "string \<Rightarrow> ModuleLoader \<Rightarrow> ModuleLoader" where
  "SetBasePath path ml = ml\<lparr>basePath := path\<rparr>"

definition resolvePath :: "Host \<Rightarrow> ModuleLoader \<Rightarrow> string \<Rightarrow> string" where
  "resolvePath h ml modulePath =
     (let parts = splitOn ''.'' [] modulePath;
          relativePath = pathJoin h parts @ ''.moon''
      in pathJoin h [basePath ml, relativePath])"

text \<open>\<open>Load\<close> returns the program (\<open>Inr\<close>) or the text of the error (\<open>Inl\<close>), and the
  loader with its cache.  The parser runs with the fuel \<open>n\<close>.\<close>

definition Load ::
  "Host \<Rightarrow> nat \<Rightarrow> (string \<Rightarrow> string + string) \<Rightarrow> string \<Rightarrow> ModuleLoader
     \<Rightarrow> ((string + Program) \<times> ModuleLoader) option" where
  "Load h n fs modulePath ml =
     (case cache ml modulePath of
        Some program \<Rightarrow> Some (Inr program, ml)
      | None \<Rightarrow>
          (let filePath = resolvePath h ml modulePath
           in case fs filePath of
                Inl err \<Rightarrow> Some (Inl (''cannot load module '' @ modulePath @ '': '' @ err), ml)
              | Inr content \<Rightarrow> do {
                  (program, errs) \<leftarrow> parseSource h n content;
                  if length errs > 0 then
                    Some (Inl (''parse errors in module '' @ modulePath @ [CHR '':'', CHR 0x0A]
                                 @ Join errs [CHR 0x0A]), ml)
                  else Some (Inr program, ml\<lparr>cache := (cache ml)(modulePath \<mapsto> program)\<rparr>)
                }))"

text \<open>\<open>ResolveImport\<close> (which the evaluator does not call): the module is the first
  segment, the item the last of two or more.\<close>

definition ResolveImport :: "string list \<Rightarrow> (string \<times> string) option" where
  "ResolveImport importPath =
     (case importPath of
        [] \<Rightarrow> None
      | modulePath # rest \<Rightarrow>
          Some (modulePath, if length importPath > 1 then last importPath else []))"

section \<open>Built-in functions and methods\<close>

definition builtinNames :: "string list" where
  "builtinNames = [''print'', ''println'', ''range'', ''len'', ''type'', ''str'', ''int'', ''float'']"

definition RegisterBuiltins :: "nat \<Rightarrow> Evaluator \<Rightarrow> Evaluator" where
  "RegisterBuiltins env st =
     foldl (\<lambda>st name. Environment_Set env name (BuiltinFunction name) st) st builtinNames"

text \<open>The strings of the unwrapped arguments, joined by a space.\<close>

definition printParts :: "Host \<Rightarrow> nat \<Rightarrow> (nat \<Rightarrow> Value) \<Rightarrow> Value list \<Rightarrow> string option" where
  "printParts h n cs args =
     map_option (\<lambda>parts. Join parts '' '')
       (those (map (\<lambda>arg. Value_String h n cs (UnwrapValue cs arg)) args))"

definition builtinPrint :: "Host \<Rightarrow> nat \<Rightarrow> Value list \<Rightarrow> Evaluator \<Rightarrow> (Value \<times> Evaluator) option" where
  "builtinPrint h n args st = do {
     text \<leftarrow> printParts h n (cells st) args;
     Some (NullValue, st\<lparr>stdout := stdout st @ text\<rparr>)
   }"

definition builtinPrintln :: "Host \<Rightarrow> nat \<Rightarrow> Value list \<Rightarrow> Evaluator \<Rightarrow> (Value \<times> Evaluator) option" where
  "builtinPrintln h n args st = do {
     text \<leftarrow> printParts h n (cells st) args;
     Some (NullValue, st\<lparr>stdout := stdout st @ text @ [CHR 0x0A]\<rparr>)
   }"

text \<open>\<open>builtinRange\<close>: \<open>make\<close> panics for a negative capacity \<open>end - start\<close> (computed
  in \<open>int64\<close>); the loop then appends the integers from \<open>start\<close> up to \<open>end\<close>.\<close>

definition rangeElements :: "64 word \<Rightarrow> 64 word \<Rightarrow> Value option" where
  "rangeElements start end_v =
     (if sint (end_v - start) < 0 then None
      else Some (ListValue (map (\<lambda>i. IntegerValue (word_of_int i)) [sint start .. sint end_v - 1])))"

definition builtinRange :: "(nat \<Rightarrow> Value) \<Rightarrow> Value list \<Rightarrow> Value option" where
  "builtinRange cs args =
     (if length args < 1 \<or> length args > 2 then Some (newError ''range() requires 1 or 2 arguments'')
      else if length args = 1 then
        (case UnwrapValue cs (args ! 0) of
           IntegerValue end_v \<Rightarrow> rangeElements 0 end_v
         | _ \<Rightarrow> Some (newError ''range() argument must be an integer''))
      else
        (case UnwrapValue cs (args ! 0) of
           IntegerValue start \<Rightarrow>
             (case UnwrapValue cs (args ! 1) of
                IntegerValue end_v \<Rightarrow> rangeElements start end_v
              | _ \<Rightarrow> Some (newError ''range() end must be an integer''))
         | _ \<Rightarrow> Some (newError ''range() start must be an integer'')))"

text \<open>\<open>len\<close> of a Go map is the number of its keys.\<close>

definition builtinLen :: "(nat \<Rightarrow> Value) \<Rightarrow> Value list \<Rightarrow> Value" where
  "builtinLen cs args =
     (if length args \<noteq> 1 then newError ''len() requires exactly 1 argument''
      else
        (let arg = UnwrapValue cs (args ! 0)
         in case arg of
              StringValue s \<Rightarrow> IntegerValue (of_nat (length s))
            | ListValue es \<Rightarrow> IntegerValue (of_nat (length es))
            | MapValue ps \<Rightarrow> IntegerValue (of_nat (length (AList.clearjunk ps)))
            | _ \<Rightarrow> newError (''len() not supported for '' @ Value_Type arg)))"

definition builtinType :: "(nat \<Rightarrow> Value) \<Rightarrow> Value list \<Rightarrow> Value" where
  "builtinType cs args =
     (if length args \<noteq> 1 then newError ''type() requires exactly 1 argument''
      else StringValue (Value_Type (UnwrapValue cs (args ! 0))))"

definition builtinStr :: "Host \<Rightarrow> nat \<Rightarrow> (nat \<Rightarrow> Value) \<Rightarrow> Value list \<Rightarrow> Value option" where
  "builtinStr h n cs args =
     (if length args \<noteq> 1 then Some (newError ''str() requires exactly 1 argument'')
      else map_option StringValue (Value_String h n cs (UnwrapValue cs (args ! 0))))"

definition builtinInt :: "Host \<Rightarrow> (nat \<Rightarrow> Value) \<Rightarrow> Value list \<Rightarrow> Value" where
  "builtinInt h cs args =
     (if length args \<noteq> 1 then newError ''int() requires exactly 1 argument''
      else
        (let arg = UnwrapValue cs (args ! 0)
         in case arg of
              IntegerValue i \<Rightarrow> arg
            | FloatValue f \<Rightarrow> IntegerValue (floatToInt h f)
            | StringValue s \<Rightarrow>
                (case sscanInt h s of
                   None \<Rightarrow> newError (''cannot convert '' @ formatQ h s @ '' to integer'')
                 | Some i \<Rightarrow> IntegerValue i)
            | BooleanValue b \<Rightarrow> IntegerValue (if b then 1 else 0)
            | _ \<Rightarrow> newError (''cannot convert '' @ Value_Type arg @ '' to integer'')))"

definition builtinFloat :: "Host \<Rightarrow> (nat \<Rightarrow> Value) \<Rightarrow> Value list \<Rightarrow> Value" where
  "builtinFloat h cs args =
     (if length args \<noteq> 1 then newError ''float() requires exactly 1 argument''
      else
        (let arg = UnwrapValue cs (args ! 0)
         in case arg of
              FloatValue f \<Rightarrow> arg
            | IntegerValue i \<Rightarrow> FloatValue (intToFloat h i)
            | StringValue s \<Rightarrow>
                (case sscanFloat h s of
                   None \<Rightarrow> newError (''cannot convert '' @ formatQ h s @ '' to float'')
                 | Some f \<Rightarrow> FloatValue f)
            | _ \<Rightarrow> newError (''cannot convert '' @ Value_Type arg @ '' to float'')))"

text \<open>The call \<open>function.Fn(args...)\<close> of a \<open>BuiltinFunction\<close>, which is one of the eight
  registered ones.\<close>

definition callBuiltin ::
  "Host \<Rightarrow> nat \<Rightarrow> string \<Rightarrow> Value list \<Rightarrow> Evaluator \<Rightarrow> (Value \<times> Evaluator) option" where
  "callBuiltin h n name args st =
     (if name = ''print'' then builtinPrint h n args st
      else if name = ''println'' then builtinPrintln h n args st
      else if name = ''range'' then map_option (\<lambda>v. (v, st)) (builtinRange (cells st) args)
      else if name = ''len'' then Some (builtinLen (cells st) args, st)
      else if name = ''type'' then Some (builtinType (cells st) args, st)
      else if name = ''str'' then map_option (\<lambda>v. (v, st)) (builtinStr h n (cells st) args)
      else if name = ''int'' then Some (builtinInt h (cells st) args, st)
      else if name = ''float'' then Some (builtinFloat h (cells st) args, st)
      else None)"

definition valuesEqual :: "Host \<Rightarrow> (nat \<Rightarrow> Value) \<Rightarrow> Value \<Rightarrow> Value \<Rightarrow> bool" where
  "valuesEqual h cs a b =
     (let a = UnwrapValue cs a; b = UnwrapValue cs b
      in case a of
           IntegerValue x \<Rightarrow> (case b of IntegerValue y \<Rightarrow> x = y | _ \<Rightarrow> False)
         | FloatValue x \<Rightarrow> (case b of FloatValue y \<Rightarrow> feq h x y | _ \<Rightarrow> False)
         | StringValue x \<Rightarrow> (case b of StringValue y \<Rightarrow> x = y | _ \<Rightarrow> False)
         | BooleanValue x \<Rightarrow> (case b of BooleanValue y \<Rightarrow> x = y | _ \<Rightarrow> False)
         | NullValue \<Rightarrow> (case b of NullValue \<Rightarrow> True | _ \<Rightarrow> False)
         | _ \<Rightarrow> False)"

subsection \<open>List, map and string methods that call no function\<close>

definition listLength :: "Value list \<Rightarrow> Value" where
  "listLength elements = IntegerValue (of_nat (length elements))"

definition listGet :: "Value list \<Rightarrow> 64 word \<Rightarrow> Value" where
  "listGet elements index =
     (if sint index < 0 \<or> sint index \<ge> int (length elements) then OptionValue None
      else OptionValue (Some (elements ! nat (sint index))))"

definition listAppend :: "Value list \<Rightarrow> Value \<Rightarrow> Value" where
  "listAppend elements val = Append elements val"

definition listContains :: "Host \<Rightarrow> (nat \<Rightarrow> Value) \<Rightarrow> Value list \<Rightarrow> Value \<Rightarrow> bool" where
  "listContains h cs elements val = list_ex (\<lambda>elem. valuesEqual h cs elem val) elements"

definition mapGet :: "(string \<times> Value) list \<Rightarrow> string \<Rightarrow> Value" where
  "mapGet pairs key =
     (case map_of pairs key of Some val \<Rightarrow> OptionValue (Some val) | None \<Rightarrow> OptionValue None)"

definition mapInsert :: "(string \<times> Value) list \<Rightarrow> string \<Rightarrow> Value \<Rightarrow> Value" where
  "mapInsert pairs key val = MapValue (AList.update key val (mapInsertAll [] pairs))"

definition mapRemove :: "(string \<times> Value) list \<Rightarrow> string \<Rightarrow> Value" where
  "mapRemove pairs key = MapValue (mapInsertAll [] (filter (\<lambda>(k, v). k \<noteq> key) pairs))"

definition mapKeys :: "(string \<times> Value) list \<Rightarrow> Value" where
  "mapKeys pairs = ListValue (map (\<lambda>(k, v). StringValue k) (AList.clearjunk pairs))"

definition mapValues :: "(string \<times> Value) list \<Rightarrow> Value" where
  "mapValues pairs = ListValue (map (\<lambda>(k, v). v) (AList.clearjunk pairs))"

definition mapContains :: "(string \<times> Value) list \<Rightarrow> string \<Rightarrow> bool" where
  "mapContains pairs key \<longleftrightarrow> map_of pairs key \<noteq> None"

definition stringLength :: "string \<Rightarrow> Value" where
  "stringLength s = IntegerValue (of_nat (length s))"

definition stringSplit :: "Host \<Rightarrow> string \<Rightarrow> string \<Rightarrow> Value" where
  "stringSplit h s sep =
     ListValue (map StringValue (if sep = [] then utf8Chars h s else splitOn sep [] s))"

primrec stringContains :: "string \<Rightarrow> string \<Rightarrow> bool" where
  "stringContains [] substr \<longleftrightarrow> substr = []"
| "stringContains (c # cs) substr \<longleftrightarrow>
     take (length substr) (c # cs) = substr \<or> stringContains cs substr"

definition stringTrim :: "Host \<Rightarrow> string \<Rightarrow> Value" where
  "stringTrim h s = StringValue (trimSpace h s)"

definition stringUpper :: "Host \<Rightarrow> string \<Rightarrow> Value" where
  "stringUpper h s = StringValue (toUpper h s)"

definition stringLower :: "Host \<Rightarrow> string \<Rightarrow> Value" where
  "stringLower h s = StringValue (toLower h s)"

definition evalStringMethod :: "Host \<Rightarrow> (nat \<Rightarrow> Value) \<Rightarrow> string \<Rightarrow> string \<Rightarrow> Value list \<Rightarrow> Value option" where
  "evalStringMethod h cs s method args =
     (if method = ''length'' then Some (stringLength s)
      else if method = ''split'' then
        (if length args \<noteq> 1 then Some (newError ''split() requires 1 argument'')
         else case UnwrapValue cs (args ! 0) of
                StringValue sep \<Rightarrow> Some (stringSplit h s sep)
              | _ \<Rightarrow> Some (newError ''split() argument must be a string''))
      else if method = ''contains'' then
        (if length args \<noteq> 1 then Some (newError ''contains() requires 1 argument'')
         else case UnwrapValue cs (args ! 0) of
                StringValue substr \<Rightarrow> Some (BooleanValue (stringContains s substr))
              | _ \<Rightarrow> Some (newError ''contains() argument must be a string''))
      else if method = ''trim'' then Some (stringTrim h s)
      else if method = ''upper'' then Some (stringUpper h s)
      else if method = ''lower'' then Some (stringLower h s)
      else None)"

definition evalMapMethod :: "(nat \<Rightarrow> Value) \<Rightarrow> (string \<times> Value) list \<Rightarrow> string \<Rightarrow> Value list \<Rightarrow> Value option" where
  "evalMapMethod cs m method args =
     (if method = ''get'' then
        (if length args \<noteq> 1 then Some (newError ''get() requires 1 argument'')
         else case UnwrapValue cs (args ! 0) of
                StringValue key \<Rightarrow> Some (mapGet m key)
              | _ \<Rightarrow> Some (newError ''get() argument must be a string''))
      else if method = ''insert'' then
        (if length args \<noteq> 2 then Some (newError ''insert() requires 2 arguments'')
         else case UnwrapValue cs (args ! 0) of
                StringValue key \<Rightarrow> Some (mapInsert m key (args ! 1))
              | _ \<Rightarrow> Some (newError ''insert() first argument must be a string''))
      else if method = ''remove'' then
        (if length args \<noteq> 1 then Some (newError ''remove() requires 1 argument'')
         else case UnwrapValue cs (args ! 0) of
                StringValue key \<Rightarrow> Some (mapRemove m key)
              | _ \<Rightarrow> Some (newError ''remove() argument must be a string''))
      else if method = ''keys'' then Some (mapKeys m)
      else if method = ''values'' then Some (mapValues m)
      else if method = ''contains'' then
        (if length args \<noteq> 1 then Some (newError ''contains() requires 1 argument'')
         else case UnwrapValue cs (args ! 0) of
                StringValue key \<Rightarrow> Some (BooleanValue (mapContains m key))
              | _ \<Rightarrow> Some (newError ''contains() argument must be a string''))
      else None)"

section \<open>Evaluator\<close>

text \<open>
  \<open>Eval\<close> and the methods it dispatches to call each other.  Each method below takes
  \<open>Eval\<close> as its argument \<open>ev\<close>; \<open>Eval\<close> itself, at the end, passes itself with one
  unit of fuel less.  An environment is its address.  A method returns its value and
  the evaluator's state, or \<open>None\<close> when it panics or its fuel \<open>n\<close> runs out.
\<close>

type_synonym EvalT = "Node \<Rightarrow> nat \<Rightarrow> Evaluator \<Rightarrow> (Value \<times> Evaluator) option"

definition unwrapReturnValue :: "Value \<Rightarrow> Value" where
  "unwrapReturnValue val = (case val of ReturnValue v \<Rightarrow> v | _ \<Rightarrow> val)"

fun evalExpressions ::
  "EvalT \<Rightarrow> Expression list \<Rightarrow> nat \<Rightarrow> Evaluator \<Rightarrow> (Value list \<times> Evaluator) option" where
  "evalExpressions ev [] env st = Some ([], st)"
| "evalExpressions ev (e # es) env st = do {
     (evaluated, st) \<leftarrow> ev (ExpressionNode e) env st;
     (rest, st) \<leftarrow> evalExpressions ev es env st;
     Some (evaluated # rest, st)
   }"

text \<open>\<open>for i, param := range params { if i < len(args) { env.Set(param.Name.Value, args[i]) } }\<close>\<close>

definition bindParameters ::
  "FunctionParameter list \<Rightarrow> Value list \<Rightarrow> nat \<Rightarrow> Evaluator \<Rightarrow> Evaluator" where
  "bindParameters params args env st =
     foldl (\<lambda>st (param, arg). case param of FunctionParameter name _ \<Rightarrow> Environment_Set env name arg st)
       st (zip params args)"

definition extendFunctionEnv :: "FunctionValue \<Rightarrow> Value list \<Rightarrow> Evaluator \<Rightarrow> nat \<times> Evaluator" where
  "extendFunctionEnv fn args st =
     (case fn of FunctionValue _ params _ fenv _ _ \<Rightarrow>
        (let (env, st) = NewEnclosedEnvironment fenv st
         in (env, bindParameters params args env st)))"

definition applyFunction ::
  "Host \<Rightarrow> nat \<Rightarrow> EvalT \<Rightarrow> Value \<Rightarrow> Value list \<Rightarrow> nat \<Rightarrow> Evaluator \<Rightarrow> (Value \<times> Evaluator) option" where
  "applyFunction h n ev fn args callerEnv st =
     (case fn of
        FunctionV function \<Rightarrow>
          (case function of FunctionValue name _ body _ isLambda lambdaBody \<Rightarrow> do {
             let oldFn = currentFn st;
             let st = st\<lparr>currentFn := name\<rparr>;
             let (extendedEnv, st) = extendFunctionEnv function args st;
             (evaluated, st) \<leftarrow>
               (if isLambda \<and> lambdaBody \<noteq> NilExpression
                then ev (ExpressionNode lambdaBody) extendedEnv st
                else ev (BlockNode body) extendedEnv st);
             Some (unwrapReturnValue evaluated, st\<lparr>currentFn := oldFn\<rparr>)
           })
      | BuiltinFunction name \<Rightarrow> callBuiltin h n name args st
      | StructDefV _ \<Rightarrow> Some (newError (Value_Type fn @ '' is not callable''), st)
      | _ \<Rightarrow> Some (newError (''not a function: '' @ Value_Type fn), st))"

subsection \<open>List methods that call a function\<close>

text \<open>\<open>ap\<close> is \<open>eval.applyFunction(fn, args, env)\<close> as a function of the arguments.\<close>

type_synonym applyT = "Value list \<Rightarrow> Evaluator \<Rightarrow> (Value \<times> Evaluator) option"

fun listMap :: "applyT \<Rightarrow> Value list \<Rightarrow> Evaluator \<Rightarrow> (Value list \<times> Evaluator) option" where
  "listMap ap [] st = Some ([], st)"
| "listMap ap (elem # elems) st = do {
     (result, st) \<leftarrow> ap [elem] st;
     (rest, st) \<leftarrow> listMap ap elems st;
     Some (result # rest, st)
   }"

fun listFilter :: "nat \<Rightarrow> applyT \<Rightarrow> Value list \<Rightarrow> Evaluator \<Rightarrow> (Value list \<times> Evaluator) option" where
  "listFilter n ap [] st = Some ([], st)"
| "listFilter n ap (elem # elems) st = do {
     (result, st) \<leftarrow> ap [elem] st;
     keep \<leftarrow> IsTruthy n (cells st) result;
     (rest, st) \<leftarrow> listFilter n ap elems st;
     Some (if keep then elem # rest else rest, st)
   }"

fun listReduce :: "applyT \<Rightarrow> Value list \<Rightarrow> Value \<Rightarrow> Evaluator \<Rightarrow> (Value \<times> Evaluator) option" where
  "listReduce ap [] acc st = Some (acc, st)"
| "listReduce ap (elem # elems) acc st = do {
     (acc, st) \<leftarrow> ap [acc, elem] st;
     listReduce ap elems acc st
   }"

fun listFind :: "nat \<Rightarrow> applyT \<Rightarrow> Value list \<Rightarrow> Evaluator \<Rightarrow> (Value \<times> Evaluator) option" where
  "listFind n ap [] st = Some (OptionValue None, st)"
| "listFind n ap (elem # elems) st = do {
     (result, st) \<leftarrow> ap [elem] st;
     found \<leftarrow> IsTruthy n (cells st) result;
     if found then Some (OptionValue (Some elem), st) else listFind n ap elems st
   }"

text \<open>The methods return a \<open>Value\<close> that is \<open>nil\<close> (\<open>None\<close> here) when the receiver has
  no built-in method of that name.\<close>

definition evalListMethod ::
  "Host \<Rightarrow> nat \<Rightarrow> EvalT \<Rightarrow> Value list \<Rightarrow> string \<Rightarrow> Value list \<Rightarrow> nat \<Rightarrow> Evaluator
     \<Rightarrow> (Value option \<times> Evaluator) option" where
  "evalListMethod h n ev elements method args env st =
     (let err = (\<lambda>msg. Some (Some (newError msg), st));
          withFunction = (\<lambda>count msg1 msg2 k.
            if length args \<noteq> count then err msg1
            else case args ! 0 of
                   FunctionV fn \<Rightarrow> k (\<lambda>as st. applyFunction h n ev (FunctionV fn) as env st)
                 | _ \<Rightarrow> err msg2)
      in if method = ''length'' then Some (Some (listLength elements), st)
         else if method = ''get'' then
           (if length args \<noteq> 1 then err ''get() requires 1 argument''
            else case UnwrapValue (cells st) (args ! 0) of
                   IntegerValue idx \<Rightarrow> Some (Some (listGet elements idx), st)
                 | _ \<Rightarrow> err ''get() argument must be an integer'')
         else if method = ''append'' then
           (if length args \<noteq> 1 then err ''append() requires 1 argument''
            else Some (Some (listAppend elements (args ! 0)), st))
         else if method = ''map'' then
           withFunction 1 ''map() requires 1 argument'' ''map() argument must be a function''
             (\<lambda>ap. map_option (\<lambda>(rs, st). (Some (ListValue rs), st)) (listMap ap elements st))
         else if method = ''filter'' then
           withFunction 1 ''filter() requires 1 argument'' ''filter() argument must be a function''
             (\<lambda>ap. map_option (\<lambda>(rs, st). (Some (ListValue rs), st)) (listFilter n ap elements st))
         else if method = ''reduce'' then
           withFunction 2 ''reduce() requires 2 arguments''
             ''reduce() first argument must be a function''
             (\<lambda>ap. map_option (\<lambda>(r, st). (Some r, st)) (listReduce ap elements (args ! 1) st))
         else if method = ''find'' then
           withFunction 1 ''find() requires 1 argument'' ''find() argument must be a function''
             (\<lambda>ap. map_option (\<lambda>(r, st). (Some r, st)) (listFind n ap elements st))
         else if method = ''contains'' then
           (if length args \<noteq> 1 then err ''contains() requires 1 argument''
            else Some (Some (BooleanValue (listContains h (cells st) elements (args ! 0))), st))
         else Some (None, st))"

text \<open>\<open>isResult\<close> is the assertion \<open>result.(*ResultValue)\<close>.\<close>

definition isResult :: "Value \<Rightarrow> bool" where
  "isResult v = (case v of ResultOk _ \<Rightarrow> True | ResultError _ \<Rightarrow> True | _ \<Rightarrow> False)"

definition evalResultMethod ::
  "Host \<Rightarrow> nat \<Rightarrow> EvalT \<Rightarrow> Value \<Rightarrow> string \<Rightarrow> Value list \<Rightarrow> nat \<Rightarrow> Evaluator
     \<Rightarrow> (Value option \<times> Evaluator) option" where
  "evalResultMethod h n ev r method args env st =
     (let err = (\<lambda>msg. Some (Some (newError msg), st))
      in if method = ''then'' then
           (if length args \<noteq> 1 then err ''then() requires 1 argument''
            else case r of
                   ResultOk v \<Rightarrow>
                     (case args ! 0 of
                        FunctionV fn \<Rightarrow> do {
                          (result, st) \<leftarrow> applyFunction h n ev (FunctionV fn) [v] env st;
                          Some (Some (if isResult result then result else ResultOk result), st)
                        }
                      | _ \<Rightarrow> err ''then() argument must be a function'')
                 | _ \<Rightarrow> Some (Some r, st))
         else if method = ''map'' then
           (if length args \<noteq> 1 then err ''map() requires 1 argument''
            else case r of
                   ResultOk v \<Rightarrow>
                     (case args ! 0 of
                        FunctionV fn \<Rightarrow> do {
                          (result, st) \<leftarrow> applyFunction h n ev (FunctionV fn) [v] env st;
                          Some (Some (ResultOk result), st)
                        }
                      | _ \<Rightarrow> err ''map() argument must be a function'')
                 | _ \<Rightarrow> Some (Some r, st))
         else if method = ''unwrap'' then
           (case r of
              ResultOk v \<Rightarrow> Some (Some v, st)
            | ResultError e \<Rightarrow> Some (Some (ErrorV e), st)
            | _ \<Rightarrow> None)
         else if method = ''unwrapOr'' then
           (if length args \<noteq> 1 then err ''unwrapOr() requires 1 argument''
            else case r of
                   ResultOk v \<Rightarrow> Some (Some v, st)
                 | _ \<Rightarrow> Some (Some (args ! 0), st))
         else Some (None, st))"

definition evalOptionMethod ::
  "Host \<Rightarrow> nat \<Rightarrow> EvalT \<Rightarrow> Value option \<Rightarrow> string \<Rightarrow> Value list \<Rightarrow> nat \<Rightarrow> Evaluator
     \<Rightarrow> (Value option \<times> Evaluator) option" where
  "evalOptionMethod h n ev ov method args env st =
     (let err = (\<lambda>msg. Some (Some (newError msg), st))
      in if method = ''unwrap'' then
           (case ov of None \<Rightarrow> err ''called unwrap on None'' | Some v \<Rightarrow> Some (Some v, st))
         else if method = ''unwrapOr'' then
           (if length args \<noteq> 1 then err ''unwrapOr() requires 1 argument''
            else case ov of None \<Rightarrow> Some (Some (args ! 0), st) | Some v \<Rightarrow> Some (Some v, st))
         else if method = ''map'' then
           (if length args \<noteq> 1 then err ''map() requires 1 argument''
            else case ov of
                   None \<Rightarrow> Some (Some (OptionValue None), st)
                 | Some v \<Rightarrow>
                     (case args ! 0 of
                        FunctionV fn \<Rightarrow> do {
                          (result, st) \<leftarrow> applyFunction h n ev (FunctionV fn) [v] env st;
                          Some (Some (OptionValue (Some result)), st)
                        }
                      | _ \<Rightarrow> err ''map() argument must be a function''))
         else if method = ''isSome'' then Some (Some (BooleanValue (ov \<noteq> None)), st)
         else if method = ''isNone'' then Some (Some (BooleanValue (ov = None)), st)
         else Some (None, st))"

definition evalBuiltinMethod ::
  "Host \<Rightarrow> nat \<Rightarrow> EvalT \<Rightarrow> Value \<Rightarrow> string \<Rightarrow> Value list \<Rightarrow> nat \<Rightarrow> Evaluator
     \<Rightarrow> (Value option \<times> Evaluator) option" where
  "evalBuiltinMethod h n ev obj method args env st =
     (let obj = UnwrapValue (cells st) obj
      in case obj of
           ListValue elements \<Rightarrow> evalListMethod h n ev elements method args env st
         | MapValue pairs \<Rightarrow> Some (evalMapMethod (cells st) pairs method args, st)
         | StringValue s \<Rightarrow> Some (evalStringMethod h (cells st) s method args, st)
         | ResultOk _ \<Rightarrow> evalResultMethod h n ev obj method args env st
         | ResultError _ \<Rightarrow> evalResultMethod h n ev obj method args env st
         | OptionValue ov \<Rightarrow> evalOptionMethod h n ev ov method args env st
         | ModuleV m \<Rightarrow>
             (case m of ModuleValue _ exports \<Rightarrow>
                map_option (\<lambda>member. (member, st)) (Environment_Get n (envs st) exports method))
         | _ \<Rightarrow> Some (None, st))"

definition evalMethodCall ::
  "Host \<Rightarrow> nat \<Rightarrow> EvalT \<Rightarrow> Expression \<Rightarrow> string \<Rightarrow> Expression list \<Rightarrow> nat \<Rightarrow> Evaluator
     \<Rightarrow> (Value \<times> Evaluator) option" where
  "evalMethodCall h n ev object methodName args env st = do {
     (obj, st) \<leftarrow> ev (ExpressionNode object) env st;
     (argValues, st) \<leftarrow> evalExpressions ev args env st;
     (result, st) \<leftarrow> evalBuiltinMethod h n ev obj methodName argValues env st;
     (case result of
        Some r \<Rightarrow> Some (r, st)
      | None \<Rightarrow>
          (let typeName = Value_Type obj;
               undefinedMethod =
                 Some (newError (''undefined method '' @ methodName @ '' on '' @ typeName), st)
           in case extensions st typeName of
                None \<Rightarrow> undefinedMethod
              | Some extMethods \<Rightarrow>
                  (case extMethods methodName of
                     None \<Rightarrow> undefinedMethod
                   | Some method \<Rightarrow>
                       (case method of FunctionValue _ params body fenv _ _ \<Rightarrow> do {
                          let (extEnv, st) = NewEnclosedEnvironment fenv st;
                          let st = Environment_Set extEnv ''this'' obj st;
                          let st = bindParameters params argValues extEnv st;
                          (result, st) \<leftarrow> ev (BlockNode body) extEnv st;
                          Some (unwrapReturnValue result, st)
                        }))))
   }"

definition evalCallExpression ::
  "Host \<Rightarrow> nat \<Rightarrow> EvalT \<Rightarrow> Expression \<Rightarrow> Expression list \<Rightarrow> nat \<Rightarrow> Evaluator
     \<Rightarrow> (Value \<times> Evaluator) option" where
  "evalCallExpression h n ev function args env st =
     (case function of
        MemberExpression object member \<Rightarrow> evalMethodCall h n ev object member args env st
      | _ \<Rightarrow> do {
          (fn, st) \<leftarrow> ev (ExpressionNode function) env st;
          (argValues, st) \<leftarrow> evalExpressions ev args env st;
          applyFunction h n ev fn argValues env st
        })"

subsection \<open>Expressions\<close>

definition evalIdentifier :: "nat \<Rightarrow> string \<Rightarrow> nat \<Rightarrow> Evaluator \<Rightarrow> (Value \<times> Evaluator) option" where
  "evalIdentifier n name env st =
     map_option (\<lambda>r. case r of Some val \<Rightarrow> (val, st) | None \<Rightarrow> (newError (''undefined: '' @ name), st))
       (Environment_Get n (envs st) env name)"

definition evalMinusPrefixExpression :: "Host \<Rightarrow> Value \<Rightarrow> Value" where
  "evalMinusPrefixExpression h right =
     (case right of
        IntegerValue v \<Rightarrow> IntegerValue (- v)
      | FloatValue v \<Rightarrow> FloatValue (fneg h v)
      | _ \<Rightarrow> newError (''unknown operator: -'' @ Value_Type right))"

definition evalNotPrefixExpression :: "nat \<Rightarrow> (nat \<Rightarrow> Value) \<Rightarrow> Value \<Rightarrow> Value option" where
  "evalNotPrefixExpression n cs right = map_option (\<lambda>b. BooleanValue (\<not> b)) (IsTruthy n cs right)"

definition evalPrefixExpression ::
  "Host \<Rightarrow> nat \<Rightarrow> EvalT \<Rightarrow> string \<Rightarrow> Expression \<Rightarrow> nat \<Rightarrow> Evaluator \<Rightarrow> (Value \<times> Evaluator) option" where
  "evalPrefixExpression h n ev operator rightNode env st = do {
     (right, st) \<leftarrow> ev (ExpressionNode rightNode) env st;
     if isError right then Some (right, st)
     else
       (let right = UnwrapValue (cells st) right
        in if operator = ''-'' then Some (evalMinusPrefixExpression h right, st)
           else if operator = ''not'' then
             map_option (\<lambda>v. (v, st)) (evalNotPrefixExpression n (cells st) right)
           else Some (newError (''unknown operator: '' @ operator @ Value_Type right), st))
   }"

text \<open>The constant \<open>0\<close> of type \<open>float64\<close> is the bit pattern \<open>0\<close>.\<close>

definition evalFloatInfixExpression :: "Host \<Rightarrow> string \<Rightarrow> float64 \<Rightarrow> float64 \<Rightarrow> Value" where
  "evalFloatInfixExpression h op left right =
     (if op = ''+'' then FloatValue (fadd h left right)
      else if op = ''-'' then FloatValue (fsub h left right)
      else if op = ''*'' then FloatValue (fmul h left right)
      else if op = ''/'' then
        (if feq h right 0 then newError ''division by zero'' else FloatValue (fdiv h left right))
      else if op = ''>'' then BooleanValue (flt h right left)
      else if op = ''<'' then BooleanValue (flt h left right)
      else if op = ''>='' then BooleanValue (fle h right left)
      else if op = ''<='' then BooleanValue (fle h left right)
      else newError (''unknown operator: Float '' @ op @ '' Float''))"

definition evalStringInfixExpression :: "string \<Rightarrow> string \<Rightarrow> string \<Rightarrow> Value" where
  "evalStringInfixExpression op left right =
     (if op = ''+'' then StringValue (left @ right)
      else if op = ''>'' then BooleanValue (left > right)
      else if op = ''<'' then BooleanValue (left < right)
      else if op = ''>='' then BooleanValue (left \<ge> right)
      else if op = ''<='' then BooleanValue (left \<le> right)
      else newError (''unknown operator: String '' @ op @ '' String''))"

text \<open>\<open>evalInfixExpression\<close> after both operands have been evaluated and unwrapped.\<close>

definition evalInfixValues ::
  "Host \<Rightarrow> nat \<Rightarrow> (nat \<Rightarrow> Value) \<Rightarrow> string \<Rightarrow> Value \<Rightarrow> Value \<Rightarrow> Value option" where
  "evalInfixValues h n cs operator left right =
     (if operator = ''and'' then do {
        a \<leftarrow> IsTruthy n cs left;
        if a then map_option BooleanValue (IsTruthy n cs right) else Some (BooleanValue False)
      }
      else if operator = ''or'' then do {
        a \<leftarrow> IsTruthy n cs left;
        if a then Some (BooleanValue True) else map_option BooleanValue (IsTruthy n cs right)
      }
      else if operator = ''is'' then Some (BooleanValue (valuesEqual h cs left right))
      else Some
        (case (left, right) of
           (IntegerValue a, IntegerValue b) \<Rightarrow> evalIntegerInfixExpression operator a b
         | (FloatValue a, FloatValue b) \<Rightarrow> evalFloatInfixExpression h operator a b
         | (IntegerValue a, FloatValue b) \<Rightarrow> evalFloatInfixExpression h operator (intToFloat h a) b
         | (FloatValue a, IntegerValue b) \<Rightarrow> evalFloatInfixExpression h operator a (intToFloat h b)
         | (StringValue a, StringValue b) \<Rightarrow> evalStringInfixExpression operator a b
         | _ \<Rightarrow>
             newError (''type mismatch: '' @ Value_Type left @ '' '' @ operator @ '' ''
                         @ Value_Type right)))"

definition evalInfixExpression ::
  "Host \<Rightarrow> nat \<Rightarrow> EvalT \<Rightarrow> Expression \<Rightarrow> string \<Rightarrow> Expression \<Rightarrow> nat \<Rightarrow> Evaluator
     \<Rightarrow> (Value \<times> Evaluator) option" where
  "evalInfixExpression h n ev leftNode operator rightNode env st = do {
     (left, st) \<leftarrow> ev (ExpressionNode leftNode) env st;
     if isError left then Some (left, st)
     else do {
       (right, st) \<leftarrow> ev (ExpressionNode rightNode) env st;
       if isError right then Some (right, st)
       else map_option (\<lambda>v. (v, st))
              (evalInfixValues h n (cells st) operator
                 (UnwrapValue (cells st) left) (UnwrapValue (cells st) right))
     }
   }"

definition evalAssignmentExpression ::
  "nat \<Rightarrow> EvalT \<Rightarrow> string \<Rightarrow> Expression \<Rightarrow> nat \<Rightarrow> Evaluator \<Rightarrow> (Value \<times> Evaluator) option" where
  "evalAssignmentExpression n ev name valueNode env st = do {
     (val, st) \<leftarrow> ev (ExpressionNode valueNode) env st;
     if isError val then Some (val, st)
     else do {
       existing \<leftarrow> Environment_Get n (envs st) env name;
       (case existing of
          None \<Rightarrow> Some (newError (''undefined: '' @ name), st)
        | Some (MutableValue a) \<Rightarrow>
            (let v = UnwrapValue (cells st) val
             in Some (v, st\<lparr>cells := (cells st)(a := v)\<rparr>))
        | Some _ \<Rightarrow> Some (newError (name @ '' is not mutable''), st))
     }
   }"

definition evalIfExpression ::
  "nat \<Rightarrow> EvalT \<Rightarrow> Expression \<Rightarrow> Statement list \<Rightarrow> Statement list option \<Rightarrow> nat \<Rightarrow> Evaluator
     \<Rightarrow> (Value \<times> Evaluator) option" where
  "evalIfExpression n ev cond consequence alternative env st = do {
     (condition, st) \<leftarrow> ev (ExpressionNode cond) env st;
     if isError condition then Some (condition, st)
     else do {
       truthy \<leftarrow> IsTruthy n (cells st) condition;
       if truthy then
         (let (inner, st) = NewEnclosedEnvironment env st in ev (BlockNode (Some consequence)) inner st)
       else if alternative \<noteq> None then
         (let (inner, st) = NewEnclosedEnvironment env st in ev (BlockNode alternative) inner st)
       else Some (NullValue, st)
     }
   }"

definition evalFunctionLiteral :: "string list \<Rightarrow> Expression \<Rightarrow> nat \<Rightarrow> Value" where
  "evalFunctionLiteral parameters body env =
     FunctionV (FunctionValue [] (map (\<lambda>p. FunctionParameter p None) parameters) None env True body)"

definition evalMemberExpression ::
  "nat \<Rightarrow> EvalT \<Rightarrow> Expression \<Rightarrow> string \<Rightarrow> nat \<Rightarrow> Evaluator \<Rightarrow> (Value \<times> Evaluator) option" where
  "evalMemberExpression n ev object member env st = do {
     (obj, st) \<leftarrow> ev (ExpressionNode object) env st;
     if isError obj then Some (obj, st)
     else
       (case UnwrapValue (cells st) obj of
          StructValue d fs \<Rightarrow>
            (case map_of fs member of
               Some val \<Rightarrow> Some (val, st)
             | None \<Rightarrow>
                 Some (newError (''undefined field '' @ member @ '' on ''
                                   @ Value_Type (StructValue d fs)), st))
        | _ \<Rightarrow>
            (case obj of
               ModuleV (ModuleValue name exports) \<Rightarrow>
                 map_option
                   (\<lambda>r. case r of
                           Some val \<Rightarrow> (val, st)
                         | None \<Rightarrow>
                             (newError (''undefined export '' @ member @ '' in module '' @ name), st))
                   (Environment_Get n (envs st) exports member)
             | _ \<Rightarrow> Some (newError (''cannot access member of '' @ Value_Type obj), st)))
   }"

text \<open>\<open>string(b)\<close> for a byte \<open>b\<close>: the UTF-8 encoding of the code point \<open>b\<close>.\<close>

definition byteToString :: "char \<Rightarrow> string" where
  "byteToString c =
     (let k = (of_char c :: nat)
      in if k < 128 then [c] else [char_of (192 + k div 64), char_of (128 + k mod 64)])"

definition evalIndexExpression ::
  "EvalT \<Rightarrow> Expression \<Rightarrow> Expression \<Rightarrow> nat \<Rightarrow> Evaluator \<Rightarrow> (Value \<times> Evaluator) option" where
  "evalIndexExpression ev leftNode indexNode env st = do {
     (left, st) \<leftarrow> ev (ExpressionNode leftNode) env st;
     if isError left then Some (left, st)
     else do {
       (index, st) \<leftarrow> ev (ExpressionNode indexNode) env st;
       if isError index then Some (index, st)
       else
         (let left = UnwrapValue (cells st) left;
              index = UnwrapValue (cells st) index
          in Some
           (case left of
              ListValue elements \<Rightarrow>
                (case index of
                   IntegerValue idx \<Rightarrow>
                     (if sint idx < 0 \<or> sint idx \<ge> int (length elements)
                      then newError ''index out of bounds''
                      else elements ! nat (sint idx))
                 | _ \<Rightarrow> newError ''list index must be an integer'')
            | MapValue pairs \<Rightarrow>
                (case index of
                   StringValue key \<Rightarrow>
                     (case map_of pairs key of Some val \<Rightarrow> val | None \<Rightarrow> OptionValue None)
                 | _ \<Rightarrow> newError ''map key must be a string'')
            | StringValue s \<Rightarrow>
                (case index of
                   IntegerValue idx \<Rightarrow>
                     (if sint idx < 0 \<or> sint idx \<ge> int (length s)
                      then newError ''index out of bounds''
                      else StringValue (byteToString (s ! nat (sint idx))))
                 | _ \<Rightarrow> newError ''string index must be an integer'')
            | _ \<Rightarrow> newError (''cannot index '' @ Value_Type left), st))
     }
   }"

definition evalListLiteral ::
  "EvalT \<Rightarrow> Expression list \<Rightarrow> nat \<Rightarrow> Evaluator \<Rightarrow> (Value \<times> Evaluator) option" where
  "evalListLiteral ev elementNodes env st = do {
     (elements, st) \<leftarrow> evalExpressions ev elementNodes env st;
     if length elements = 1 \<and> isError (elements ! 0) then Some (elements ! 0, st)
     else Some (ListValue elements, st)
   }"

text \<open>The loops of the literals return early with an error value (\<open>Inl\<close>) or end with
  the map they have filled (\<open>Inr\<close>).  Go visits the entries of \<open>node.Pairs\<close> and
  \<open>node.Fields\<close> in an order it does not fix; here it is the order of the list
  (\<open>clearjunk\<close>: every key of a Go map once).\<close>

fun evalMapPairs ::
  "EvalT \<Rightarrow> (Expression \<times> Expression) list \<Rightarrow> (string \<times> Value) list \<Rightarrow> nat \<Rightarrow> Evaluator
     \<Rightarrow> ((Value + (string \<times> Value) list) \<times> Evaluator) option" where
  "evalMapPairs ev [] pairs env st = Some (Inr pairs, st)"
| "evalMapPairs ev ((keyNode, valueNode) # rest) pairs env st = do {
     (key, st) \<leftarrow> ev (ExpressionNode keyNode) env st;
     if isError key then Some (Inl key, st)
     else
       (case UnwrapValue (cells st) key of
          StringValue keyStr \<Rightarrow> do {
            (v, st) \<leftarrow> ev (ExpressionNode valueNode) env st;
            if isError v then Some (Inl v, st)
            else evalMapPairs ev rest (AList.update keyStr v pairs) env st
          }
        | _ \<Rightarrow> Some (Inl (newError ''map key must be a string''), st))
   }"

definition evalMapLiteral ::
  "EvalT \<Rightarrow> (Expression \<times> Expression) list \<Rightarrow> nat \<Rightarrow> Evaluator \<Rightarrow> (Value \<times> Evaluator) option" where
  "evalMapLiteral ev pairNodes env st =
     map_option (\<lambda>(r, st). (case r of Inl v \<Rightarrow> v | Inr pairs \<Rightarrow> MapValue pairs, st))
       (evalMapPairs ev pairNodes [] env st)"

fun evalFieldValues ::
  "EvalT \<Rightarrow> (string \<times> Expression) list \<Rightarrow> (string \<times> Value) list \<Rightarrow> nat \<Rightarrow> Evaluator
     \<Rightarrow> ((Value + (string \<times> Value) list) \<times> Evaluator) option" where
  "evalFieldValues ev [] fs env st = Some (Inr fs, st)"
| "evalFieldValues ev ((name, valueNode) # rest) fs env st = do {
     (v, st) \<leftarrow> ev (ExpressionNode valueNode) env st;
     if isError v then Some (Inl v, st)
     else evalFieldValues ev rest (AList.update name v fs) env st
   }"

definition evalStructLiteral ::
  "EvalT \<Rightarrow> string \<Rightarrow> (string \<times> Expression) list \<Rightarrow> nat \<Rightarrow> Evaluator \<Rightarrow> (Value \<times> Evaluator) option" where
  "evalStructLiteral ev structName fieldNodes env st =
     (case structs st structName of
        None \<Rightarrow> Some (newError (''undefined struct: '' @ structName), st)
      | Some d \<Rightarrow>
          map_option (\<lambda>(r, st). (case r of Inl v \<Rightarrow> v | Inr fs \<Rightarrow> StructValue d fs, st))
            (evalFieldValues ev (AList.clearjunk fieldNodes) [] env st))"

definition evalWithExpression ::
  "EvalT \<Rightarrow> Expression \<Rightarrow> (string \<times> Expression) list \<Rightarrow> nat \<Rightarrow> Evaluator \<Rightarrow> (Value \<times> Evaluator) option" where
  "evalWithExpression ev object updateNodes env st = do {
     (obj, st) \<leftarrow> ev (ExpressionNode object) env st;
     if isError obj then Some (obj, st)
     else
       (case UnwrapValue (cells st) obj of
          StructValue d fs \<Rightarrow>
            map_option (\<lambda>(r, st). (case r of Inl v \<Rightarrow> v | Inr updates \<Rightarrow> With d fs updates, st))
              (evalFieldValues ev (AList.clearjunk updateNodes) [] env st)
        | _ \<Rightarrow>
            Some (newError (''with can only be used on structs, got '' @ Value_Type obj), st))
   }"

definition evalOptionExpression ::
  "EvalT \<Rightarrow> bool \<Rightarrow> Expression \<Rightarrow> nat \<Rightarrow> Evaluator \<Rightarrow> (Value \<times> Evaluator) option" where
  "evalOptionExpression ev isSome valueNode env st =
     (if \<not> isSome then Some (OptionValue None, st)
      else do {
        (v, st) \<leftarrow> ev (ExpressionNode valueNode) env st;
        if isError v then Some (v, st) else Some (OptionValue (Some v), st)
      })"

definition evalResultExpression ::
  "Host \<Rightarrow> nat \<Rightarrow> EvalT \<Rightarrow> bool \<Rightarrow> Expression \<Rightarrow> nat \<Rightarrow> Evaluator \<Rightarrow> (Value \<times> Evaluator) option" where
  "evalResultExpression h n ev isOk valueNode env st = do {
     (v, st) \<leftarrow> ev (ExpressionNode valueNode) env st;
     if isError v then Some (v, st)
     else if isOk then Some (ResultOk v, st)
     else
       (case v of
          StringValue s \<Rightarrow> Some (ResultError (ErrorValue (currentFn st) [] s), st)
        | _ \<Rightarrow>
            map_option (\<lambda>s. (ResultError (ErrorValue (currentFn st) [] s), st))
              (Value_String h n (cells st) v))
   }"

text \<open>\<open>matchPattern\<close> returns whether the case matches, and the bindings.\<close>

definition matchPattern :: "Value \<Rightarrow> MatchCase \<Rightarrow> bool \<times> (string \<times> Value) list" where
  "matchPattern val matchCase =
     (case matchCase of MatchCase pat bindingVar body \<Rightarrow>
        (let bind = (\<lambda>v. case bindingVar of None \<Rightarrow> [] | Some x \<Rightarrow> [(x, v)])
         in case pat of
              OptionExpression patIsSome _ \<Rightarrow>
                (case val of
                   OptionValue ov \<Rightarrow>
                     (if patIsSome \<noteq> (ov \<noteq> None) then (False, [])
                      else (True, case ov of Some v \<Rightarrow> bind v | None \<Rightarrow> []))
                 | _ \<Rightarrow> (False, []))
            | ResultExpression patIsOk _ \<Rightarrow>
                (case val of
                   ResultOk v \<Rightarrow> (if patIsOk then (True, bind v) else (False, []))
                 | ResultError e \<Rightarrow> (if patIsOk then (False, []) else (True, bind (ErrorV e)))
                 | _ \<Rightarrow> (False, []))
            | Identifier name \<Rightarrow> (True, [(name, val)])
            | _ \<Rightarrow> (False, [])))"

fun evalMatchCases ::
  "EvalT \<Rightarrow> Value \<Rightarrow> MatchCase list \<Rightarrow> nat \<Rightarrow> Evaluator \<Rightarrow> (Value \<times> Evaluator) option" where
  "evalMatchCases ev val [] env st = Some (NullValue, st)"
| "evalMatchCases ev val (matchCase # rest) env st =
     (let (matched, bindings) = matchPattern val matchCase
      in if matched then
           (let (caseEnv, st) = NewEnclosedEnvironment env st;
                st = foldl (\<lambda>st (name, v). Environment_Set caseEnv name v st) st bindings
            in case matchCase of MatchCase _ _ body \<Rightarrow> ev (BlockNode (Some body)) caseEnv st)
         else evalMatchCases ev val rest env st)"

definition evalMatchExpression ::
  "EvalT \<Rightarrow> Expression \<Rightarrow> MatchCase list \<Rightarrow> nat \<Rightarrow> Evaluator \<Rightarrow> (Value \<times> Evaluator) option" where
  "evalMatchExpression ev valueNode cases env st = do {
     (v, st) \<leftarrow> ev (ExpressionNode valueNode) env st;
     if isError v then Some (v, st) else evalMatchCases ev v cases env st
   }"

definition evalMutableExpression ::
  "EvalT \<Rightarrow> Expression \<Rightarrow> nat \<Rightarrow> Evaluator \<Rightarrow> (Value \<times> Evaluator) option" where
  "evalMutableExpression ev valueNode env st = do {
     (v, st) \<leftarrow> ev (ExpressionNode valueNode) env st;
     if isError v then Some (v, st)
     else
       (let a = nextCell st
        in Some (MutableValue a,
                 st\<lparr>cells := (cells st)(a := UnwrapValue (cells st) v), nextCell := a + 1\<rparr>))
   }"

subsection \<open>Statements\<close>

fun evalProgramLoop ::
  "EvalT \<Rightarrow> Statement list \<Rightarrow> Value \<Rightarrow> nat \<Rightarrow> Evaluator \<Rightarrow> (Value \<times> Evaluator) option" where
  "evalProgramLoop ev [] result env st = Some (result, st)"
| "evalProgramLoop ev (stmt # rest) result env st = do {
     (result, st) \<leftarrow> ev (StatementNode stmt) env st;
     (case result of
        ReturnValue v \<Rightarrow> Some (v, st)
      | ErrorV _ \<Rightarrow> Some (result, st)
      | _ \<Rightarrow> evalProgramLoop ev rest result env st)
   }"

definition evalProgram :: "EvalT \<Rightarrow> Program \<Rightarrow> nat \<Rightarrow> Evaluator \<Rightarrow> (Value \<times> Evaluator) option" where
  "evalProgram ev program env st = evalProgramLoop ev program NullValue env st"

definition evalDefStatement ::
  "EvalT \<Rightarrow> string \<Rightarrow> Expression \<Rightarrow> nat \<Rightarrow> Evaluator \<Rightarrow> (Value \<times> Evaluator) option" where
  "evalDefStatement ev name valueNode env st = do {
     (val, st) \<leftarrow> ev (ExpressionNode valueNode) env st;
     Some (val, Environment_Set env name val st)
   }"

definition evalReturnStatement ::
  "EvalT \<Rightarrow> Expression \<Rightarrow> nat \<Rightarrow> Evaluator \<Rightarrow> (Value \<times> Evaluator) option" where
  "evalReturnStatement ev valueNode env st =
     (if valueNode = NilExpression then Some (ReturnValue NullValue, st)
      else do {
        (val, st) \<leftarrow> ev (ExpressionNode valueNode) env st;
        if isError val then Some (val, st) else Some (ReturnValue val, st)
      })"

fun evalBlockLoop ::
  "EvalT \<Rightarrow> Statement list \<Rightarrow> Value \<Rightarrow> nat \<Rightarrow> Evaluator \<Rightarrow> (Value \<times> Evaluator) option" where
  "evalBlockLoop ev [] result env st = Some (result, st)"
| "evalBlockLoop ev (stmt # rest) result env st = do {
     (result, st) \<leftarrow> ev (StatementNode stmt) env st;
     (case result of
        ReturnValue _ \<Rightarrow> Some (result, st)
      | BreakValue \<Rightarrow> Some (result, st)
      | ContinueValue \<Rightarrow> Some (result, st)
      | _ \<Rightarrow> evalBlockLoop ev rest result env st)
   }"

definition evalBlockStatement ::
  "EvalT \<Rightarrow> Statement list \<Rightarrow> nat \<Rightarrow> Evaluator \<Rightarrow> (Value \<times> Evaluator) option" where
  "evalBlockStatement ev block env st = evalBlockLoop ev block NullValue env st"

definition evalFunctionStatement :: "FunctionStatement \<Rightarrow> nat \<Rightarrow> Evaluator \<Rightarrow> Value \<times> Evaluator" where
  "evalFunctionStatement stmt env st =
     (case stmt of FunctionStatement name params _ body \<Rightarrow>
        (let fn = FunctionV (FunctionValue name params (Some body) env False NilExpression)
         in (fn, Environment_Set env name fn st)))"

text \<open>The loop of \<open>evalWhileStatement\<close> has no bound in the source; here it has the fuel
  \<open>k\<close>, and a loop that runs out of it has no result.\<close>

fun evalWhileLoop ::
  "nat \<Rightarrow> nat \<Rightarrow> EvalT \<Rightarrow> Expression \<Rightarrow> Statement list \<Rightarrow> nat \<Rightarrow> Evaluator
     \<Rightarrow> (Value \<times> Evaluator) option" where
  "evalWhileLoop 0 n ev cond body env st = None"
| "evalWhileLoop (Suc k) n ev cond body env st = do {
     (condition, st) \<leftarrow> ev (ExpressionNode cond) env st;
     if isError condition then Some (condition, st)
     else do {
       truthy \<leftarrow> IsTruthy n (cells st) condition;
       if \<not> truthy then Some (NullValue, st)
       else do {
         let (inner, st) = NewEnclosedEnvironment env st;
         (result, st) \<leftarrow> ev (BlockNode (Some body)) inner st;
         (case result of
            BreakValue \<Rightarrow> Some (NullValue, st)
          | ReturnValue _ \<Rightarrow> Some (result, st)
          | ErrorV _ \<Rightarrow> Some (result, st)
          | _ \<Rightarrow> evalWhileLoop k n ev cond body env st)
       }
     }
   }"

definition evalWhileStatement ::
  "nat \<Rightarrow> EvalT \<Rightarrow> Expression \<Rightarrow> Statement list \<Rightarrow> nat \<Rightarrow> Evaluator \<Rightarrow> (Value \<times> Evaluator) option" where
  "evalWhileStatement n ev cond body env st = evalWhileLoop n n ev cond body env st"

fun evalForLoop ::
  "EvalT \<Rightarrow> string \<Rightarrow> Statement list \<Rightarrow> Value list \<Rightarrow> nat \<Rightarrow> Evaluator \<Rightarrow> (Value \<times> Evaluator) option" where
  "evalForLoop ev variable body [] env st = Some (NullValue, st)"
| "evalForLoop ev variable body (elem # rest) env st = do {
     let (loopEnv, st) = NewEnclosedEnvironment env st;
     let st = Environment_Set loopEnv variable elem st;
     (result, st) \<leftarrow> ev (BlockNode (Some body)) loopEnv st;
     (case result of
        BreakValue \<Rightarrow> Some (NullValue, st)
      | ReturnValue _ \<Rightarrow> Some (result, st)
      | ErrorV _ \<Rightarrow> Some (result, st)
      | _ \<Rightarrow> evalForLoop ev variable body rest env st)
   }"

definition evalForStatement ::
  "EvalT \<Rightarrow> string \<Rightarrow> Expression \<Rightarrow> Statement list \<Rightarrow> nat \<Rightarrow> Evaluator \<Rightarrow> (Value \<times> Evaluator) option" where
  "evalForStatement ev variable iterableNode body env st = do {
     (iterable, st) \<leftarrow> ev (ExpressionNode iterableNode) env st;
     if isError iterable then Some (iterable, st)
     else
       (case UnwrapValue (cells st) iterable of
          ListValue elements \<Rightarrow> evalForLoop ev variable body elements env st
        | _ \<Rightarrow> Some (newError (''cannot iterate over '' @ Value_Type iterable), st))
   }"

definition evalStructStatement :: "string \<Rightarrow> StructField list \<Rightarrow> nat \<Rightarrow> Evaluator \<Rightarrow> Value \<times> Evaluator" where
  "evalStructStatement name fs env st =
     (let d = StructDefinition name fs;
          st = st\<lparr>structs := (structs st)(name \<mapsto> d)\<rparr>
      in (StructDefV d, Environment_Set env name (StructDefV d) st))"

definition evalExtendStatement ::
  "string \<Rightarrow> FunctionStatement list \<Rightarrow> nat \<Rightarrow> Evaluator \<Rightarrow> Value \<times> Evaluator" where
  "evalExtendStatement typeName methods env st =
     (let existing = (case extensions st typeName of Some ms \<Rightarrow> ms | None \<Rightarrow> Map.empty);
          ms = foldl (\<lambda>ms method. case method of FunctionStatement name params _ body \<Rightarrow>
                        ms(name \<mapsto> FunctionValue name params (Some body) env False NilExpression))
                 existing methods
      in (NullValue, st\<lparr>extensions := (extensions st)(typeName \<mapsto> ms)\<rparr>))"

definition evalImportStatement ::
  "Host \<Rightarrow> nat \<Rightarrow> EvalT \<Rightarrow> string list \<Rightarrow> nat \<Rightarrow> Evaluator \<Rightarrow> (Value \<times> Evaluator) option" where
  "evalImportStatement h n ev path env st =
     (case path of
        [] \<Rightarrow> None
      | moduleName # _ \<Rightarrow>
          (case modules st moduleName of
             Some m \<Rightarrow> Some (ModuleV m, Environment_Set env moduleName (ModuleV m) st)
           | None \<Rightarrow> do {
               (loaded, ml) \<leftarrow> Load h n (files st) moduleName (loader st);
               let st = st\<lparr>loader := ml\<rparr>;
               (case loaded of
                  Inl err \<Rightarrow> Some (newError err, st)
                | Inr program \<Rightarrow> do {
                    let (modEnv, st) = NewEnvironment st;
                    let st = RegisterBuiltins modEnv st;
                    (result, st) \<leftarrow> ev (ProgramNode program) modEnv st;
                    if isError result then Some (result, st)
                    else
                      (let m = ModuleValue moduleName modEnv;
                           st = st\<lparr>modules := (modules st)(moduleName \<mapsto> m)\<rparr>
                       in Some (ModuleV m, Environment_Set env moduleName (ModuleV m) st))
                  })
             }))"

subsection \<open>Eval\<close>

definition evalStatement ::
  "Host \<Rightarrow> nat \<Rightarrow> EvalT \<Rightarrow> Statement \<Rightarrow> nat \<Rightarrow> Evaluator \<Rightarrow> (Value \<times> Evaluator) option" where
  "evalStatement h n ev node env st =
     (case node of
        NilStatement \<Rightarrow> None
      | DefStatement name _ v \<Rightarrow> evalDefStatement ev name v env st
      | ReturnStatement v \<Rightarrow> evalReturnStatement ev v env st
      | ExpressionStatement e \<Rightarrow> ev (ExpressionNode e) env st
      | BlockStatement stmts \<Rightarrow> evalBlockStatement ev stmts env st
      | FunctionStmt f \<Rightarrow> Some (evalFunctionStatement f env st)
      | WhileStatement cond body \<Rightarrow> evalWhileStatement n ev cond body env st
      | ForStatement variable iterable body \<Rightarrow> evalForStatement ev variable iterable body env st
      | BreakStatement \<Rightarrow> Some (BreakValue, st)
      | ContinueStatement \<Rightarrow> Some (ContinueValue, st)
      | StructStatement name fs \<Rightarrow> Some (evalStructStatement name fs env st)
      | ExtendStatement typeName methods \<Rightarrow> Some (evalExtendStatement typeName methods env st)
      | ImportStatement path \<Rightarrow> evalImportStatement h n ev path env st)"

definition evalExpression ::
  "Host \<Rightarrow> nat \<Rightarrow> EvalT \<Rightarrow> Expression \<Rightarrow> nat \<Rightarrow> Evaluator \<Rightarrow> (Value \<times> Evaluator) option" where
  "evalExpression h n ev node env st =
     (case node of
        NilExpression \<Rightarrow> Some (NullValue, st)
      | Identifier name \<Rightarrow> evalIdentifier n name env st
      | IntegerLiteral _ v \<Rightarrow> Some (IntegerValue v, st)
      | FloatLiteral _ v \<Rightarrow> Some (FloatValue v, st)
      | StringLiteral v \<Rightarrow> Some (StringValue v, st)
      | BooleanLiteral _ v \<Rightarrow> Some (BooleanValue v, st)
      | PrefixExpression operator right \<Rightarrow> evalPrefixExpression h n ev operator right env st
      | InfixExpression left operator right \<Rightarrow> evalInfixExpression h n ev left operator right env st
      | AssignmentExpression name v \<Rightarrow> evalAssignmentExpression n ev name v env st
      | IfExpression cond consequence alternative \<Rightarrow>
          evalIfExpression n ev cond consequence alternative env st
      | FunctionLiteral parameters body \<Rightarrow> Some (evalFunctionLiteral parameters body env, st)
      | CallExpression function args \<Rightarrow> evalCallExpression h n ev function args env st
      | MemberExpression object member \<Rightarrow> evalMemberExpression n ev object member env st
      | IndexExpression left index \<Rightarrow> evalIndexExpression ev left index env st
      | ListLiteral elements \<Rightarrow> evalListLiteral ev elements env st
      | MapLiteral pairs \<Rightarrow> evalMapLiteral ev pairs env st
      | StructLiteral structName fs \<Rightarrow> evalStructLiteral ev structName fs env st
      | WithExpression object updates \<Rightarrow> evalWithExpression ev object updates env st
      | OptionExpression isSome v \<Rightarrow> evalOptionExpression ev isSome v env st
      | ResultExpression isOk v \<Rightarrow> evalResultExpression h n ev isOk v env st
      | MatchExpression v cases \<Rightarrow> evalMatchExpression ev v cases env st
      | MutableExpression _ v \<Rightarrow> evalMutableExpression ev v env st)"

definition evalNode ::
  "Host \<Rightarrow> nat \<Rightarrow> EvalT \<Rightarrow> Node \<Rightarrow> nat \<Rightarrow> Evaluator \<Rightarrow> (Value \<times> Evaluator) option" where
  "evalNode h n ev node env st =
     (case node of
        ProgramNode program \<Rightarrow> evalProgram ev program env st
      | StatementNode stmt \<Rightarrow> evalStatement h n ev stmt env st
      | ExpressionNode e \<Rightarrow> evalExpression h n ev e env st
      | BlockNode None \<Rightarrow> None
      | BlockNode (Some block) \<Rightarrow> evalBlockStatement ev block env st)"

text \<open>\<open>Eval\<close> with the fuel \<open>n\<close>: the depth of the calls of \<open>Eval\<close>, and the bound of every
  loop and chain that the source leaves unbounded.\<close>

fun Eval :: "Host \<Rightarrow> nat \<Rightarrow> Node \<Rightarrow> nat \<Rightarrow> Evaluator \<Rightarrow> (Value \<times> Evaluator) option" where
  "Eval h 0 node env st = None"
| "Eval h (Suc n) node env st = evalNode h n (Eval h n) node env st"

text \<open>\<open>NewEvaluator\<close>, in the working directory \<open>cwd\<close> and with the file system \<open>fs\<close>.\<close>

definition NewEvaluator :: "string \<Rightarrow> (string \<Rightarrow> string + string) \<Rightarrow> Evaluator" where
  "NewEvaluator cwd fs =
     \<lparr>structs = Map.empty, extensions = Map.empty, modules = Map.empty,
      loader = NewModuleLoader cwd, currentFn = [],
      envs = (\<lambda>_. \<lparr>store = Map.empty, parent = None\<rparr>), nextEnv = 0,
      cells = (\<lambda>_. NullValue), nextCell = 0, files = fs, stdout = []\<rparr>"


section \<open>A host and a state for closed examples\<close>

text \<open>
  \<open>plainHost\<close> runs programs that compute with integers, strings and collections.
  Its \<open>pathJoin\<close> is \<open>filepath.Join\<close> on Unix for segments that are already clean
  (no empty, \<open>.\<close> or \<open>..\<close> part and no doubled separator): the segments that are
  not empty, joined by \<open>/\<close>.  Its string functions are those of Go on ASCII text
  without blanks at the ends and without letters to convert.  Its float operations are
  placeholders: no example below meets a float.
\<close>

definition plainHost :: Host where
  "plainHost =
     \<lparr>fadd = (\<lambda>a b. 0), fsub = (\<lambda>a b. 0), fmul = (\<lambda>a b. 0), fdiv = (\<lambda>a b. 0),
      fneg = (\<lambda>a. 0), flt = (\<lambda>a b. False), fle = (\<lambda>a b. False), feq = (\<lambda>a b. False),
      intToFloat = (\<lambda>a. 0), floatToInt = (\<lambda>a. 0), formatG = (\<lambda>a. []),
      formatQ = (\<lambda>s. [CHR 0x22] @ s @ [CHR 0x22]),
      sscanInt = (\<lambda>s. None), sscanFloat = (\<lambda>s. None), parseFloat = (\<lambda>s. None),
      trimSpace = (\<lambda>s. s), toUpper = (\<lambda>s. s), toLower = (\<lambda>s. s),
      utf8Chars = (\<lambda>s. map (\<lambda>c. [c]) s),
      pathJoin = (\<lambda>ps. Join (filter (\<lambda>p. p \<noteq> []) ps) ''/'')\<rparr>"

text \<open>The state in which \<open>Run\<close> starts the evaluator, in the directory \<open>cwd\<close>: the
  global environment has the address \<open>0\<close> and holds the built-in functions.\<close>

definition initialState :: "string \<Rightarrow> (string \<Rightarrow> string + string) \<Rightarrow> Evaluator" where
  "initialState cwd fs =
     (let (env, st) = NewEnvironment (NewEvaluator cwd fs) in RegisterBuiltins env st)"

definition noFiles :: "string \<Rightarrow> string + string" where
  "noFiles path = Inl (''open '' @ path @ '': no such file or directory'')"

section \<open>Example expressions\<close>

text \<open>\<open>Ok(5)\<close>, \<open>Error("e")\<close> and the function literal \<open>{ x -> Ok(x) }\<close>.\<close>

definition okFive :: Expression where
  "okFive = ResultExpression True (IntegerLiteral ''5'' 5)"

definition errE :: Expression where
  "errE = ResultExpression False (StringLiteral ''e'')"

definition wrapOk :: Expression where
  "wrapOk = FunctionLiteral [''x''] (ResultExpression True (Identifier ''x''))"

definition s0 :: Evaluator where
  "s0 = initialState ''/w'' noFiles"


(*PROPERTIES*)

chapter \<open>Properties\<close>

section \<open>Integer division and remainder\<close>

lemma sint64_range: "- (2 ^ 63) \<le> sint (a :: 64 word) \<and> sint a < 2 ^ 63"
  using sint_ge [of a] sint_lt [of a] by simp

lemma sint64_of_int: "- (2 ^ 63) \<le> k \<Longrightarrow> k < 2 ^ 63 \<Longrightarrow> sint (word_of_int k :: 64 word) = k"
  by (simp add: sint_sbintrunc' signed_take_bit_int_eq_self)

lemma sint_goMod: "b \<noteq> 0 \<Longrightarrow> sint (goMod a b) = sint a smod sint b"
proof -
  assume "b \<noteq> 0"
  then have nz: "sint b \<noteq> 0" by (simp add: signed_eq_0_iff)
  have "sint a smod sint b \<in> {- \<bar>sint b\<bar> + 1 .. \<bar>sint b\<bar> - 1}"
    using smod_int_range [OF nz] .
  with sint64_range [of b] have "- (2 ^ 63) \<le> sint a smod sint b \<and> sint a smod sint b < 2 ^ 63"
    by auto
  then show ?thesis
    unfolding goMod_def by (simp add: sint64_of_int)
qed

lemma sint_goDiv:
  assumes "\<not> (a = - (2 ^ 63) \<and> b = - 1)"
  shows "sint (goDiv a b) = sint a sdiv sint b"
proof -
  have r: "sint a sdiv sint b \<in> {- \<bar>sint a\<bar> .. \<bar>sint a\<bar>}"
    using sdiv_int_range by blast
  have lo: "- (2 ^ 63) \<le> sint a sdiv sint b"
    using r sint64_range [of a] by auto
  have hi: "sint a sdiv sint b < 2 ^ 63"
  proof (cases "sint a = - (2 ^ 63)")
    case True
    have "sint (- (2 ^ 63) :: 64 word) = - (2 ^ 63)" by simp
    with True have a: "a = - (2 ^ 63)"
      by (metis signed_word_eqI)
    with assms have "b \<noteq> - 1" by simp
    then have b: "sint b \<noteq> - 1"
      by (metis sint_n1 signed_word_eqI)
    consider "sint b = 0" | "sint b = 1" | "2 \<le> \<bar>sint b\<bar>"
      using b by linarith
    then show ?thesis
    proof cases
      case 1
      then show ?thesis by simp
    next
      case 2
      with True show ?thesis by simp
    next
      case 3
      have d0: "0 \<le> (2 ^ 63 :: int) div \<bar>sint b\<bar>"
        using 3 by (simp add: pos_imp_zdiv_nonneg_iff)
      have "(2 ^ 63 :: int) div \<bar>sint b\<bar> \<le> 2 ^ 63 div 2"
        using 3 by (intro zdiv_mono2) auto
      then have d1: "(2 ^ 63 :: int) div \<bar>sint b\<bar> < 2 ^ 63" by simp
      have "sint a sdiv sint b = - (sgn (sint b) * (2 ^ 63 div \<bar>sint b\<bar>))"
        using True by (simp add: signed_divide_int_def)
      also have "\<dots> < 2 ^ 63"
        using d0 d1 by (cases "sint b < 0") (auto simp: sgn_if)
      finally show ?thesis .
    qed
  next
    case False
    with r sint64_range [of a] show ?thesis by auto
  qed
  show ?thesis unfolding goDiv_def using lo hi by (simp add: sint64_of_int)
qed

lemma goDiv_goMod: "goDiv a b * b + goMod a b = a"
proof -
  have "goDiv a b * b + goMod a b
      = word_of_int (sint a sdiv sint b) * word_of_int (sint b) + word_of_int (sint a smod sint b)"
    by (simp add: goDiv_def goMod_def)
  also have "\<dots> = word_of_int (sint a sdiv sint b * sint b + sint a smod sint b)"
    by simp
  also have "\<dots> = word_of_int (sint a)"
    by (simp only: sdiv_mult_smod_eq)
  finally show ?thesis by simp
qed

text \<open>
  Claim C7.  For all \<open>int64\<close> values \<open>a\<close> and \<open>b\<close>, \<open>a / b\<close> and \<open>a % b\<close> evaluate to
  an \<open>ErrorValue\<close> exactly when \<open>b = 0\<close>.  When \<open>b\<close> is not zero the error branch is
  not taken: \<open>a / b\<close> is the \<open>IntegerValue\<close> of the quotient and \<open>a % b\<close> the
  \<open>IntegerValue\<close> of the remainder, where quotient times divisor plus remainder is the
  dividend, the remainder is the truncated remainder of the two signed numbers, and
  the quotient is their truncated quotient (but for the one quotient that does not fit
  in 64 bits, which Go wraps around).
\<close>

theorem evalIntegerInfixExpression_division:
  "(isError (evalIntegerInfixExpression ''/'' a b) \<longleftrightarrow> b = 0) \<and>
   (isError (evalIntegerInfixExpression ''%'' a b) \<longleftrightarrow> b = 0) \<and>
   (b \<noteq> 0 \<longrightarrow>
      evalIntegerInfixExpression ''/'' a b = IntegerValue (goDiv a b) \<and>
      evalIntegerInfixExpression ''%'' a b = IntegerValue (goMod a b) \<and>
      goDiv a b * b + goMod a b = a \<and>
      sint (goMod a b) = sint a smod sint b \<and>
      (\<not> (a = - (2 ^ 63) \<and> b = - 1) \<longrightarrow> sint (goDiv a b) = sint a sdiv sint b))"
  by (simp add: evalIntegerInfixExpression_def isError_def newError_def goDiv_goMod
        sint_goMod sint_goDiv)

theorem evalIntegerInfixExpression_division_witness:
  "(2 :: 64 word) \<noteq> 0 \<and> \<not> ((- 7 :: 64 word) = - (2 ^ 63) \<and> (2 :: 64 word) = - 1) \<and>
   evalIntegerInfixExpression ''/'' (- 7) 2 = IntegerValue (- 3) \<and>
   evalIntegerInfixExpression ''%'' (- 7) 2 = IntegerValue (- 1) \<and>
   sint (goDiv (- 7) 2 :: 64 word) = - 3 \<and>
   isError (evalIntegerInfixExpression ''/'' 5 0)"
  using evalIntegerInfixExpression_division [of "- 7" 2]
        evalIntegerInfixExpression_division [of 5 0]
  by (simp add: goDiv_def goMod_def)

section \<open>Rules for running the lexer and the parser on a text\<close>

lemmas lexer_simps =
  Let_def NewLexer_def NextToken.simps skipWhitespaceExceptNewline.simps nextTokenSwitch_def
  readChar_def peekChar_def newToken_def isLetter_def isDigit_def readNumber_def
  readDigits.simps slice_def readIdentifier_def readIdentifierLoop.simps LookupIdent_def
  keywordTable_def readString_def readStringLoop.simps skipComment.simps

lemmas parser_fuel_simps =
  skipNewlines.simps(2) [where k = "pred_numeral k" for k, folded numeral_eq_Suc]
  typeParamsLoop.simps(2) [where k = "pred_numeral k" for k, folded numeral_eq_Suc]
  parseTypeAnnotation.simps(2) [where n = "pred_numeral k" for k, folded numeral_eq_Suc]
  functionParametersLoop.simps(2) [where k = "pred_numeral k" for k, folded numeral_eq_Suc]
  structFieldsLoop.simps(2) [where k = "pred_numeral k" for k, folded numeral_eq_Suc]
  importPathLoop.simps(2) [where k = "pred_numeral k" for k, folded numeral_eq_Suc]
  blockStatementLoop.simps(2) [where k = "pred_numeral k" for k, folded numeral_eq_Suc]
  extendMethodsLoop.simps(2) [where k = "pred_numeral k" for k, folded numeral_eq_Suc]
  expressionListLoop.simps(2) [where k = "pred_numeral k" for k, folded numeral_eq_Suc]
  fieldValuesLoop.simps(2) [where k = "pred_numeral k" for k, folded numeral_eq_Suc]
  lambdaParamsLoop.simps(2) [where k = "pred_numeral k" for k, folded numeral_eq_Suc]
  mapLiteralLoop.simps(2) [where k = "pred_numeral k" for k, folded numeral_eq_Suc]
  matchCasesLoop.simps(2) [where k = "pred_numeral k" for k, folded numeral_eq_Suc]
  infixLoop.simps(2) [where k = "pred_numeral k" for k, folded numeral_eq_Suc]
  programLoop.simps(2) [where k = "pred_numeral k" for k, folded numeral_eq_Suc]
  parseExpression.simps(2) [where n = "pred_numeral k" for k, folded numeral_eq_Suc]
  parseStatement.simps(2) [where n = "pred_numeral k" for k, folded numeral_eq_Suc]

lemmas parser_simps =
  LOWEST_def ASSIGN_PREC_def OR_PREC_def AND_PREC_def IS_PREC_def COMPARE_PREC_def SUM_PREC_def
  PRODUCT_PREC_def PREFIX_PREC_def CALL_PREC_def INDEX_PREC_def precedences_def
  prefixParseFns_def infixParseFns_def nextToken_def zeroToken_def NewParser_def
  addParseError_def peekError_def curTokenIs_def peekTokenIs_def expectPeek_def
  curPrecedence_def peekPrecedence_def digitVal_def ParseInt_def parseTypeHint_def
  parseFunctionParameters_def parseStructFields_def parseStructStatement_def
  parseImportStatement_def expecting_def parseBlockStatement_def parseDefStatement_def
  parseFunctionStatement_def parseReturnStatement_def parseWhileStatement_def
  parseForStatement_def parseExtendStatement_def parseExpressionStatement_def
  parseIntegerLiteral_def parseFloatLiteral_def parseStringLiteral_def
  parseBooleanLiteral_def parsePrefixExpression_def parseGroupedExpression_def
  parseExpressionList_def parseListLiteral_def parseStructLiteralBody_def
  maybeParseStructLiteral_def parseIdentifier_def parseLambdaWithFirstParam_def
  parseLambdaMultiParam_def mapLiteralPut_def parseMapLiteralBody_def
  parseBraceExpression_def parseIfExpression_def parseIfStatement_def
  parseOptionExpression_def parseResultExpression_def parseMatchCase_def
  parseMatchExpression_def parseMutableExpression_def parseInfixExpression_def
  parseAssignmentExpression_def parseCallExpression_def parseWithExpression_def
  parseMemberExpression_def parseIndexExpression_def callPrefix_def callInfix_def
  parseExpressionBody_def parseStatementBody_def ParseProgram_def parseSource_def

section \<open>Operator precedence\<close>

lemma parse_or_and:
  "parseSource h 6 ''a or b and c'' =
     Some ([ExpressionStatement
        (InfixExpression (Identifier ''a'') ''or''
           (InfixExpression (Identifier ''b'') ''and'' (Identifier ''c'')))], [])"
  by (simp add: lexer_simps parser_simps parser_fuel_simps)

lemma parse_and_is:
  "parseSource h 6 ''a and b is c'' =
     Some ([ExpressionStatement
        (InfixExpression (Identifier ''a'') ''and''
           (InfixExpression (Identifier ''b'') ''is'' (Identifier ''c'')))], [])"
  by (simp add: lexer_simps parser_simps parser_fuel_simps)

lemma parse_is_compare:
  "parseSource h 6 ''a is b < c'' =
     Some ([ExpressionStatement
        (InfixExpression (Identifier ''a'') ''is''
           (InfixExpression (Identifier ''b'') ''<'' (Identifier ''c'')))], [])"
  by (simp add: lexer_simps parser_simps parser_fuel_simps)

lemma parse_compare_sum:
  "parseSource h 6 ''a >= b - c'' =
     Some ([ExpressionStatement
        (InfixExpression (Identifier ''a'') ''>=''
           (InfixExpression (Identifier ''b'') ''-'' (Identifier ''c'')))], [])"
  by (simp add: lexer_simps parser_simps parser_fuel_simps)

lemma parse_product_sum:
  "parseSource h 6 ''a * b + c'' =
     Some ([ExpressionStatement
        (InfixExpression (InfixExpression (Identifier ''a'') ''*'' (Identifier ''b'')) ''+''
           (Identifier ''c''))], [])"
  by (simp add: lexer_simps parser_simps parser_fuel_simps)

lemma parse_sum_sum:
  "parseSource h 6 ''a - b + c'' =
     Some ([ExpressionStatement
        (InfixExpression (InfixExpression (Identifier ''a'') ''-'' (Identifier ''b'')) ''+''
           (Identifier ''c''))], [])"
  by (simp add: lexer_simps parser_simps parser_fuel_simps)

lemma parse_prefix_product:
  "parseSource h 6 ''-a % b'' =
     Some ([ExpressionStatement
        (InfixExpression (PrefixExpression ''-'' (Identifier ''a'')) ''%'' (Identifier ''b''))], [])"
  by (simp add: lexer_simps parser_simps parser_fuel_simps)

lemma parse_prefix_member:
  "parseSource h 6 ''not a.b'' =
     Some ([ExpressionStatement
        (PrefixExpression ''not'' (MemberExpression (Identifier ''a'') ''b''))], [])"
  by (simp add: lexer_simps parser_simps parser_fuel_simps)

lemma parse_prefix_index:
  "parseSource h 6 ''-a[b]'' =
     Some ([ExpressionStatement
        (PrefixExpression ''-'' (IndexExpression (Identifier ''a'') (Identifier ''b'')))], [])"
  by (simp add: lexer_simps parser_simps parser_fuel_simps)

lemma parse_assign_or:
  "parseSource h 6 ''a == b or c'' =
     Some ([ExpressionStatement
        (AssignmentExpression ''a''
           (InfixExpression (Identifier ''b'') ''or'' (Identifier ''c'')))], [])"
  by (simp add: lexer_simps parser_simps parser_fuel_simps)

text \<open>
  Claim C8.  The precedence levels of the parser are in the stated order, from
  assignment (the lowest operator) through \<open>or\<close>, \<open>and\<close>, \<open>is\<close>, comparison, sum,
  product, prefix and call or member to index (the highest), each operator token has
  the level stated for it, and the text \<open>1 + 2 * 3\<close> parses without an error to the
  tree that prints as \<open>(1 + (2 * 3))\<close>, which is not the tree of \<open>(1 + 2) * 3\<close>.
\<close>

theorem parser_precedence:
  "LOWEST < ASSIGN_PREC \<and> ASSIGN_PREC < OR_PREC \<and> OR_PREC < AND_PREC \<and> AND_PREC < IS_PREC \<and>
   IS_PREC < COMPARE_PREC \<and> COMPARE_PREC < SUM_PREC \<and> SUM_PREC < PRODUCT_PREC \<and>
   PRODUCT_PREC < PREFIX_PREC \<and> PREFIX_PREC < CALL_PREC \<and> CALL_PREC < INDEX_PREC \<and>
   precedences ASSIGN_MUT = Some ASSIGN_PREC \<and>
   precedences OR_T = Some OR_PREC \<and> precedences AND_T = Some AND_PREC \<and>
   precedences IS = Some IS_PREC \<and>
   precedences GT = Some COMPARE_PREC \<and> precedences LT = Some COMPARE_PREC \<and>
   precedences GTE = Some COMPARE_PREC \<and> precedences LTE = Some COMPARE_PREC \<and>
   precedences PLUS = Some SUM_PREC \<and> precedences MINUS = Some SUM_PREC \<and>
   precedences MULTIPLY = Some PRODUCT_PREC \<and> precedences DIVIDE = Some PRODUCT_PREC \<and>
   precedences MODULO = Some PRODUCT_PREC \<and>
   precedences LPAREN = Some CALL_PREC \<and> precedences DOT = Some CALL_PREC \<and>
   precedences LBRACKET = Some INDEX_PREC \<and>
   parseSource h 6 ''1 + 2 * 3'' =
     Some ([ExpressionStatement
        (InfixExpression (IntegerLiteral ''1'' 1) ''+''
           (InfixExpression (IntegerLiteral ''2'' 2) ''*'' (IntegerLiteral ''3'' 3)))], []) \<and>
   map_option (Program_String \<circ> fst) (parseSource h 6 ''1 + 2 * 3'') = Some (Some ''(1 + (2 * 3))'') \<and>
   map_option fst (parseSource h 6 ''1 + 2 * 3'') \<noteq>
     Some [ExpressionStatement
        (InfixExpression
           (InfixExpression (IntegerLiteral ''1'' 1) ''+'' (IntegerLiteral ''2'' 2)) ''*''
           (IntegerLiteral ''3'' 3))]"
proof -
  have p: "parseSource h 6 ''1 + 2 * 3'' =
     Some ([ExpressionStatement
        (InfixExpression (IntegerLiteral ''1'' 1) ''+''
           (InfixExpression (IntegerLiteral ''2'' 2) ''*'' (IntegerLiteral ''3'' 3)))], [])"
    by (simp add: lexer_simps parser_simps parser_fuel_simps)
  show ?thesis
    unfolding p
    by (simp add: LOWEST_def ASSIGN_PREC_def OR_PREC_def AND_PREC_def IS_PREC_def
          COMPARE_PREC_def SUM_PREC_def PRODUCT_PREC_def PREFIX_PREC_def CALL_PREC_def
          INDEX_PREC_def precedences_def Program_String_def opt2_def)
qed

section \<open>Rules for running the evaluator\<close>

lemmas eval_fuel_simps =
  Value_String.simps(2) [where n = "pred_numeral k" for k, folded numeral_eq_Suc]
  IsTruthy.simps(2) [where n = "pred_numeral k" for k, folded numeral_eq_Suc]
  Environment_Get.simps(2) [where n = "pred_numeral k" for k, folded numeral_eq_Suc]
  evalWhileLoop.simps(2) [where k = "pred_numeral k" for k, folded numeral_eq_Suc]
  Eval.simps(2) [where n = "pred_numeral k" for k, folded numeral_eq_Suc]

lemmas eval_simps =
  Let_def NewEnvironment_def NewEnclosedEnvironment_def Environment_Set_def
  builtinNames_def RegisterBuiltins_def UnwrapValue_def isError_def newError_def
  unwrapReturnValue_def bindParameters_def extendFunctionEnv_def applyFunction_def
  evalListMethod_def isResult_def evalResultMethod_def evalOptionMethod_def
  evalBuiltinMethod_def evalMethodCall_def evalCallExpression_def evalIdentifier_def
  evalMinusPrefixExpression_def evalNotPrefixExpression_def evalPrefixExpression_def
  evalInfixValues_def evalInfixExpression_def evalAssignmentExpression_def
  evalIfExpression_def evalFunctionLiteral_def evalMemberExpression_def
  evalIndexExpression_def evalListLiteral_def evalMapLiteral_def evalStructLiteral_def
  evalWithExpression_def evalOptionExpression_def evalResultExpression_def
  matchPattern_def evalMatchExpression_def evalMutableExpression_def evalProgram_def
  evalDefStatement_def evalReturnStatement_def evalBlockStatement_def
  evalFunctionStatement_def evalWhileStatement_def evalForStatement_def
  evalStructStatement_def evalExtendStatement_def evalStatement_def evalExpression_def
  evalNode_def NewEvaluator_def evalMapMethod_def evalStringMethod_def
  listGet_def listAppend_def mapGet_def initialState_def noFiles_def

section \<open>Append\<close>

lemma copy_replicate: "copy (replicate (length xs + 1) a) xs = xs @ replicate 1 a"
  unfolding copy_def Let_def by (simp only: length_replicate drop_replicate) simp

lemma Append_eq: "Append L v = ListValue (L @ [v])"
  unfolding Append_def Let_def copy_replicate by simp

lemma evalExpressions_single:
  "ev (ExpressionNode a) env st = Some (v, st') \<Longrightarrow> evalExpressions ev [a] env st = Some ([v], st')"
  by simp

lemma Eval_method_call:
  "Eval h (Suc n) (ExpressionNode (CallExpression (MemberExpression obj m) args)) env st
     = evalMethodCall h n (Eval h n) obj m args env st"
  by (simp add: evalNode_def evalExpression_def evalCallExpression_def)

lemma Eval_index:
  "Eval h (Suc n) (ExpressionNode (IndexExpression l i)) env st
     = evalIndexExpression (Eval h n) l i env st"
  by (simp add: evalNode_def evalExpression_def)

text \<open>
  Claim C6.  \<open>ListValue.Append\<close> returns a new list: the elements of the receiver
  followed by the value, so its length is one more, its last element is the value and
  the receiver's elements are its first elements.  The call \<open>L.append(v)\<close> evaluates
  to that list and leaves the state as the evaluation of the receiver and of the
  argument left it: the receiver, wherever it is held, has the elements and the length
  it had.
\<close>

theorem ListValue_Append:
  "Append L v = ListValue (L @ [v])
   \<and> (case Append L v of
         ListValue ys \<Rightarrow> length ys = length L + 1 \<and> last ys = v \<and> take (length L) ys = L
       | _ \<Rightarrow> False)
   \<and> (Eval h n (ExpressionNode obj) env st = Some (ListValue L, st1)
        \<and> Eval h n (ExpressionNode a) env st1 = Some (v, st2)
      \<longrightarrow> Eval h (Suc n) (ExpressionNode (CallExpression (MemberExpression obj ''append'') [a])) env st
            = Some (ListValue (L @ [v]), st2))"
  by (simp add: Append_eq evalNode_def evalExpression_def evalCallExpression_def
        evalMethodCall_def evalBuiltinMethod_def UnwrapValue_def evalListMethod_def listAppend_def)

theorem ListValue_Append_witness:
  "Eval plainHost 3 (ExpressionNode
      (CallExpression
         (MemberExpression (ListLiteral [IntegerLiteral ''1'' 1, IntegerLiteral ''2'' 2]) ''append'')
         [IntegerLiteral ''3'' 3])) 0 (initialState ''/w'' noFiles)
     = Some (ListValue [IntegerValue 1, IntegerValue 2, IntegerValue 3], initialState ''/w'' noFiles)"
  using ListValue_Append [of "[IntegerValue 1, IntegerValue 2]" "IntegerValue 3" plainHost 2
      "ListLiteral [IntegerLiteral ''1'' 1, IntegerLiteral ''2'' 2]" 0 "initialState ''/w'' noFiles"
      "initialState ''/w'' noFiles" "IntegerLiteral ''3'' 3" "initialState ''/w'' noFiles"]
  by (simp add: eval_simps eval_fuel_simps)

section \<open>Lookups\<close>

text \<open>
  Claim C10.  For a map \<open>m\<close> and a string \<open>k\<close> that is not a key of \<open>m\<close>, the index
  expression \<open>m[k]\<close> and the call \<open>m.get(k)\<close> evaluate to \<open>None\<close>, not to an
  \<open>ErrorValue\<close>.  For a list \<open>L\<close> and an integer \<open>i\<close> below \<open>0\<close> or not below the
  length of \<open>L\<close>, the call \<open>L.get(i)\<close> evaluates to \<open>None\<close> and the index expression
  \<open>L[i]\<close> to the \<open>ErrorValue\<close> with the message \<open>index out of bounds\<close>.
\<close>

theorem lookup_absent:
  "(map_of m k = None \<longrightarrow> mapGet m k = OptionValue None)
   \<and> (sint i < 0 \<or> int (length L) \<le> sint i \<longrightarrow> listGet L i = OptionValue None)
   \<and> (Eval h n (ExpressionNode mobj) env st = Some (MapValue m, st1)
        \<and> Eval h n (ExpressionNode key) env st1 = Some (StringValue k, st2)
        \<and> map_of m k = None
      \<longrightarrow> Eval h (Suc n) (ExpressionNode (IndexExpression mobj key)) env st
            = Some (OptionValue None, st2)
        \<and> Eval h (Suc n) (ExpressionNode (CallExpression (MemberExpression mobj ''get'') [key])) env st
            = Some (OptionValue None, st2))
   \<and> (Eval h n (ExpressionNode lobj) env st = Some (ListValue L, st1)
        \<and> Eval h n (ExpressionNode idx) env st1 = Some (IntegerValue i, st2)
        \<and> (sint i < 0 \<or> int (length L) \<le> sint i)
      \<longrightarrow> Eval h (Suc n) (ExpressionNode (CallExpression (MemberExpression lobj ''get'') [idx])) env st
            = Some (OptionValue None, st2)
        \<and> Eval h (Suc n) (ExpressionNode (IndexExpression lobj idx)) env st
            = Some (ErrorV (ErrorValue [] [] ''index out of bounds''), st2))"
  by (auto simp add: evalNode_def evalExpression_def evalCallExpression_def
        evalMethodCall_def evalBuiltinMethod_def
        UnwrapValue_def evalListMethod_def evalMapMethod_def evalIndexExpression_def
        isError_def mapGet_def listGet_def newError_def)

theorem lookup_absent_witness:
  "mapGet [(''a'', IntegerValue 1)] ''b'' = OptionValue None
   \<and> listGet [IntegerValue 1] 5 = OptionValue None
   \<and> Eval plainHost 3 (ExpressionNode
        (IndexExpression (MapLiteral [(StringLiteral ''a'', IntegerLiteral ''1'' 1)]) (StringLiteral ''b'')))
        0 (initialState ''/w'' noFiles)
      = Some (OptionValue None, initialState ''/w'' noFiles)
   \<and> Eval plainHost 3 (ExpressionNode
        (CallExpression
           (MemberExpression (MapLiteral [(StringLiteral ''a'', IntegerLiteral ''1'' 1)]) ''get'')
           [StringLiteral ''b'']))
        0 (initialState ''/w'' noFiles)
      = Some (OptionValue None, initialState ''/w'' noFiles)
   \<and> Eval plainHost 3 (ExpressionNode
        (CallExpression (MemberExpression (ListLiteral [IntegerLiteral ''1'' 1]) ''get'')
           [IntegerLiteral ''5'' 5]))
        0 (initialState ''/w'' noFiles)
      = Some (OptionValue None, initialState ''/w'' noFiles)
   \<and> Eval plainHost 3 (ExpressionNode
        (IndexExpression (ListLiteral [IntegerLiteral ''1'' 1]) (IntegerLiteral ''5'' 5)))
        0 (initialState ''/w'' noFiles)
      = Some (ErrorV (ErrorValue [] [] ''index out of bounds''), initialState ''/w'' noFiles)"
  using lookup_absent [of "[(''a'', IntegerValue 1)]" "''b''" 5 "[IntegerValue 1]" plainHost 2
      "MapLiteral [(StringLiteral ''a'', IntegerLiteral ''1'' 1)]" 0 "initialState ''/w'' noFiles"
      "initialState ''/w'' noFiles" "StringLiteral ''b''" "initialState ''/w'' noFiles"
      "ListLiteral [IntegerLiteral ''1'' 1]" "IntegerLiteral ''5'' 5"]
  by (simp add: eval_simps eval_fuel_simps)

section \<open>Result methods\<close>

text \<open>
  Claim C5.  For a receiver that evaluates to a \<open>Result\<close> and an argument \<open>a\<close>:
  \<open>unwrap()\<close> is the stored \<open>ErrorValue\<close> on \<open>Error\<close> and the inner value on \<open>Ok\<close>;
  \<open>then(a)\<close> and \<open>map(a)\<close> are the receiver itself on \<open>Error\<close>, and \<open>unwrapOr(a)\<close> is the
  value of \<open>a\<close> on \<open>Error\<close> and the inner value on \<open>Ok\<close>; on \<open>Ok(x)\<close> with \<open>a\<close> a
  function \<open>f\<close> (a \<open>FunctionValue\<close>) whose call on \<open>x\<close> returns \<open>y\<close>, \<open>then(a)\<close> is
  \<open>y\<close> itself when \<open>y\<close> is a \<open>Result\<close> and \<open>Ok(y)\<close> otherwise, and \<open>map(a)\<close> is
  \<open>Ok(y)\<close>.
\<close>

theorem Result_methods:
  "(Eval h n (ExpressionNode r) env st = Some (ResultError e, sa)
      \<longrightarrow> Eval h (Suc n) (ExpressionNode (CallExpression (MemberExpression r ''unwrap'') [])) env st
            = Some (ErrorV e, sa))
   \<and> (Eval h n (ExpressionNode r) env st = Some (ResultOk x, sa)
      \<longrightarrow> Eval h (Suc n) (ExpressionNode (CallExpression (MemberExpression r ''unwrap'') [])) env st
            = Some (x, sa))
   \<and> (Eval h n (ExpressionNode r) env st = Some (ResultError e, sa)
        \<and> Eval h n (ExpressionNode a) env sa = Some (v, sb)
      \<longrightarrow> Eval h (Suc n) (ExpressionNode (CallExpression (MemberExpression r ''then'') [a])) env st
            = Some (ResultError e, sb)
        \<and> Eval h (Suc n) (ExpressionNode (CallExpression (MemberExpression r ''map'') [a])) env st
            = Some (ResultError e, sb)
        \<and> Eval h (Suc n) (ExpressionNode (CallExpression (MemberExpression r ''unwrapOr'') [a])) env st
            = Some (v, sb))
   \<and> (Eval h n (ExpressionNode r) env st = Some (ResultOk x, sa)
        \<and> Eval h n (ExpressionNode a) env sa = Some (v, sb)
      \<longrightarrow> Eval h (Suc n) (ExpressionNode (CallExpression (MemberExpression r ''unwrapOr'') [a])) env st
            = Some (x, sb))
   \<and> (Eval h n (ExpressionNode r) env st = Some (ResultOk x, sa)
        \<and> Eval h n (ExpressionNode a) env sa = Some (FunctionV f, sb)
        \<and> applyFunction h n (Eval h n) (FunctionV f) [x] env sb = Some (y, sc)
      \<longrightarrow> Eval h (Suc n) (ExpressionNode (CallExpression (MemberExpression r ''then'') [a])) env st
            = Some (if isResult y then y else ResultOk y, sc)
        \<and> Eval h (Suc n) (ExpressionNode (CallExpression (MemberExpression r ''map'') [a])) env st
            = Some (ResultOk y, sc))"
  by (simp add: evalNode_def evalExpression_def evalCallExpression_def
        evalMethodCall_def evalBuiltinMethod_def UnwrapValue_def evalResultMethod_def)


theorem Result_methods_witness:
  "map_option fst (Eval plainHost 4 (ExpressionNode (CallExpression (MemberExpression errE ''unwrap'') [])) 0 s0)
     = Some (ErrorV (ErrorValue [] [] ''e''))
   \<and> map_option fst (Eval plainHost 4 (ExpressionNode (CallExpression (MemberExpression okFive ''unwrap'') [])) 0 s0)
     = Some (IntegerValue 5)
   \<and> map_option fst (Eval plainHost 4 (ExpressionNode (CallExpression (MemberExpression errE ''then'') [wrapOk])) 0 s0)
     = Some (ResultError (ErrorValue [] [] ''e''))
   \<and> map_option fst (Eval plainHost 4 (ExpressionNode (CallExpression (MemberExpression errE ''map'') [wrapOk])) 0 s0)
     = Some (ResultError (ErrorValue [] [] ''e''))
   \<and> map_option fst (Eval plainHost 4 (ExpressionNode (CallExpression (MemberExpression errE ''unwrapOr'') [IntegerLiteral ''7'' 7])) 0 s0)
     = Some (IntegerValue 7)
   \<and> map_option fst (Eval plainHost 4 (ExpressionNode (CallExpression (MemberExpression okFive ''unwrapOr'') [IntegerLiteral ''7'' 7])) 0 s0)
     = Some (IntegerValue 5)
   \<and> map_option fst (Eval plainHost 4 (ExpressionNode (CallExpression (MemberExpression okFive ''then'') [wrapOk])) 0 s0)
     = Some (ResultOk (IntegerValue 5))
   \<and> map_option fst (Eval plainHost 4 (ExpressionNode (CallExpression (MemberExpression okFive ''map'') [wrapOk])) 0 s0)
     = Some (ResultOk (ResultOk (IntegerValue 5)))"
  using Result_methods [where h = plainHost and n = 3 and env = 0 and st = s0 and sa = s0
      and sb = s0 and r = errE and e = "ErrorValue [] [] ''e''" and a = wrapOk
      and v = "FunctionV (FunctionValue [] [FunctionParameter ''x'' None] None 0 True
                 (ResultExpression True (Identifier ''x'')))"]
    Result_methods [where h = plainHost and n = 3 and env = 0 and st = s0 and sa = s0
      and sb = s0 and r = errE and e = "ErrorValue [] [] ''e''" and a = "IntegerLiteral ''7'' 7"
      and v = "IntegerValue 7"]
    Result_methods [where h = plainHost and n = 3 and env = 0 and st = s0 and sa = s0
      and sb = s0 and r = okFive and x = "IntegerValue 5" and a = "IntegerLiteral ''7'' 7"
      and v = "IntegerValue 7"]
    Result_methods [where h = plainHost and n = 3 and env = 0 and st = s0 and sa = s0
      and sb = s0 and r = okFive and x = "IntegerValue 5" and a = wrapOk
      and f = "FunctionValue [] [FunctionParameter ''x'' None] None 0 True
                 (ResultExpression True (Identifier ''x''))"
      and y = "ResultOk (IntegerValue 5)"
      and sc = "s0\<lparr>envs := (envs s0)(1 := \<lparr>store = [''x'' \<mapsto> IntegerValue 5], parent = Some 0\<rparr>),
                    nextEnv := 2\<rparr>"]
  by (simp add: okFive_def errE_def wrapOk_def s0_def eval_simps eval_fuel_simps)

end
